theory Spec2Isabelle
  imports Complex_Main "HOL-Library.AList" "HOL-Library.Multiset"
begin

section \<open>Python values, exceptions and containers\<close>

text \<open>
  The module \<^verbatim>\<open>nlup/perceptron.py\<close> is embedded method by method. Conventions:
  \<^item> a method that mutates \<^verbatim>\<open>self\<close> takes the object and returns it updated; a method
    that can raise returns a pair: the outcome (\<open>Inl\<close> the exception, \<open>Inr\<close> the returned
    value) and the object as the exception or the return leaves it;
  \<^item> a call through \<^verbatim>\<open>self\<close> that a subclass overrides (\<^verbatim>\<open>self.scores\<close>,
    \<^verbatim>\<open>self.predict\<close>, \<^verbatim>\<open>self.update\<close>) is an argument of the method that makes the
    call, and the definition of each concrete class passes its own method;
  \<^item> logging, \<^verbatim>\<open>print\<close>, wall-clock timing and the accuracy counter (a class of
    \<^verbatim>\<open>nlup.confusion\<close>, taken not to raise) change nothing in a model and are left
    out.
  A feature vector is a list of features (\<^verbatim>\<open>_greedy_predict\<close> concatenates two with
  \<^verbatim>\<open>+\<close>), a label is \<^verbatim>\<open>None\<close>, a boolean or a string.
\<close>

type_synonym feature = string

datatype label = PyNone | PyBool bool | PyStr string

datatype error =
  NameError | ValueError | KeyError | ZeroDivisionError | AttributeError | OverflowError

text \<open>
  A \<^verbatim>\<open>dict\<close> is an association list in insertion order. Reading a missing key of a
  \<^verbatim>\<open>defaultdict\<close> stores the default under that key and returns it.
\<close>

type_synonym ('k, 'v) dict = "('k \<times> 'v) list"

definition defaultdict_getitem :: "'v \<Rightarrow> ('k, 'v) dict \<Rightarrow> 'k \<Rightarrow> 'v \<times> ('k, 'v) dict" where
  "defaultdict_getitem dflt d k =
     (case map_of d k of Some v \<Rightarrow> (v, d) | None \<Rightarrow> (dflt, d @ [(k, dflt)]))"

text \<open>\<^verbatim>\<open>d[k] += tau\<close> on a \<^verbatim>\<open>defaultdict(int)\<close>.\<close>

definition defaultdict_iadd :: "'k \<Rightarrow> int \<Rightarrow> ('k, int) dict \<Rightarrow> ('k, int) dict" where
  "defaultdict_iadd k tau d =
     (case defaultdict_getitem 0 d k of (v, d1) \<Rightarrow> AList.update k (v + tau) d1)"

definition dict_fromkeys :: "'k list \<Rightarrow> 'v \<Rightarrow> ('k, 'v) dict" where
  "dict_fromkeys ks v = map (\<lambda>k. (k, v)) ks"

text \<open>\<^verbatim>\<open>d[k] += w\<close> on a plain \<^verbatim>\<open>dict\<close>: a missing key raises \<^verbatim>\<open>KeyError\<close>.\<close>

definition dict_iadd :: "'k \<Rightarrow> 'v::plus \<Rightarrow> ('k, 'v) dict \<Rightarrow> error + ('k, 'v) dict" where
  "dict_iadd k w d =
     (case map_of d k of None \<Rightarrow> Inl KeyError | Some v \<Rightarrow> Inr (AList.update k (v + w) d))"

text \<open>
  \<^verbatim>\<open>max(d.items(), key=itemgetter(1))\<close>: the first item, in iteration order, whose
  value no other item exceeds; \<^verbatim>\<open>ValueError\<close> on an empty dictionary.
\<close>

fun py_max_by_value :: "('k, 'v::linorder) dict \<Rightarrow> error + ('k \<times> 'v)" where
  "py_max_by_value [] = Inl ValueError"
| "py_max_by_value (p # ps) = Inr (foldl (\<lambda>best q. if snd best < snd q then q else best) p ps)"

text \<open>
  A \<^verbatim>\<open>set\<close> is the list of its elements in the order they were added. Python promises
  no iteration order for a set, so the order is a parameter: \<open>rank s\<close> places the
  elements of the set \<open>s\<close>, and iteration visits them by increasing rank.
\<close>

definition set_add :: "'a \<Rightarrow> 'a list \<Rightarrow> 'a list" where
  "set_add y s = (if y \<in> set s then s else s @ [y])"

definition set_iter :: "('a list \<Rightarrow> 'a \<Rightarrow> nat) \<Rightarrow> 'a list \<Rightarrow> 'a list" where
  "set_iter rank s = sort_key (rank s) s"

text \<open>\<^verbatim>\<open>xs[i:]\<close>.\<close>

definition py_slice_from :: "int \<Rightarrow> 'a list \<Rightarrow> 'a list" where
  "py_slice_from i xs = (if i < 0 then drop (nat (int (length xs) + i)) xs else drop (nat i) xs)"

section \<open>BinaryPerceptron\<close>

text \<open>\<open>random\<close> is the state of the generator \<^verbatim>\<open>Random(seed)\<close>.\<close>

record ('g, 'w) BinaryPerceptron =
  random :: 'g
  weights :: "(feature, 'w) dict"

definition BinaryPerceptron_init :: "'g \<Rightarrow> ('g, int) BinaryPerceptron" where
  "BinaryPerceptron_init g = \<lparr>random = g, weights = []\<rparr>"

fun BinaryPerceptron_score_sum ::
  "(feature, int) dict \<Rightarrow> feature list \<Rightarrow> int \<Rightarrow> int \<times> (feature, int) dict" where
  "BinaryPerceptron_score_sum w [] acc = (acc, w)"
| "BinaryPerceptron_score_sum w (feature # x) acc =
     (case defaultdict_getitem 0 w feature of
        (v, w1) \<Rightarrow> BinaryPerceptron_score_sum w1 x (acc + v))"

definition BinaryPerceptron_score ::
  "('g, int) BinaryPerceptron \<Rightarrow> feature list \<Rightarrow> int \<times> ('g, int) BinaryPerceptron" where
  "BinaryPerceptron_score m x =
     (case BinaryPerceptron_score_sum (weights m) x 0 of (s, w) \<Rightarrow> (s, m\<lparr>weights := w\<rparr>))"

definition BinaryPerceptron_predict ::
  "('g, int) BinaryPerceptron \<Rightarrow> feature list \<Rightarrow> bool \<times> ('g, int) BinaryPerceptron" where
  "BinaryPerceptron_predict m x =
     (case BinaryPerceptron_score m x of (s, m1) \<Rightarrow> (s \<ge> 0, m1))"

text \<open>
  \<^verbatim>\<open>fit_one\<close> calls \<^verbatim>\<open>self.predict\<close> and \<^verbatim>\<open>self.update\<close>, which
  \<^verbatim>\<open>BinaryAveragedPerceptron\<close> overrides: both are arguments. \<^verbatim>\<open>y != yhat\<close>
  compares the gold label with a boolean.
\<close>

definition BinaryPerceptron_fit_one ::
  "('m \<Rightarrow> feature list \<Rightarrow> bool \<times> 'm) \<Rightarrow> ('m \<Rightarrow> feature list \<Rightarrow> label \<Rightarrow> (error + unit) \<times> 'm) \<Rightarrow>
   'm \<Rightarrow> feature list \<Rightarrow> label \<Rightarrow> (error + bool) \<times> 'm" where
  "BinaryPerceptron_fit_one predict update m x y =
     (case predict m x of
        (yhat, m1) \<Rightarrow>
          if y \<noteq> PyBool yhat then
            (case update m1 x y of
               (Inl e, m2) \<Rightarrow> (Inl e, m2)
             | (Inr u, m2) \<Rightarrow> (Inr yhat, m2))
          else (Inr yhat, m1))"

fun BinaryPerceptron_update_loop ::
  "(feature, int) dict \<Rightarrow> feature list \<Rightarrow> int \<Rightarrow> (feature, int) dict" where
  "BinaryPerceptron_update_loop w [] tau = w"
| "BinaryPerceptron_update_loop w (feature # x) tau =
     BinaryPerceptron_update_loop (defaultdict_iadd feature tau w) x tau"

text \<open>
  \<^verbatim>\<open>y is False\<close> holds of the object \<^verbatim>\<open>False\<close> alone; the method tests nothing
  else about \<^verbatim>\<open>y\<close> and has no \<^verbatim>\<open>raise\<close>.
\<close>

definition BinaryPerceptron_update ::
  "('g, int) BinaryPerceptron \<Rightarrow> feature list \<Rightarrow> label \<Rightarrow> int \<Rightarrow> ('g, int) BinaryPerceptron" where
  "BinaryPerceptron_update m x y tau =
     (let tau1 = (if y = PyBool False then tau * (- 1) else tau)
      in m\<lparr>weights := BinaryPerceptron_update_loop (weights m) x tau1\<rparr>)"

text \<open>
  \<^verbatim>\<open>{feature: weight for feature in weight if weight != 0}\<close>: the comprehension
  iterates over the name \<^verbatim>\<open>weight\<close>, which nothing binds (it is neither a local of
  \<^verbatim>\<open>finalize\<close> nor a global of the module), so evaluating it raises \<^verbatim>\<open>NameError\<close>
  before \<^verbatim>\<open>self.weights\<close> is assigned.
\<close>

definition BinaryPerceptron_finalize ::
  "('g, int) BinaryPerceptron \<Rightarrow> (error + unit) \<times> ('g, int) BinaryPerceptron" where
  "BinaryPerceptron_finalize m = (Inl NameError, m)"

text \<open>The methods as an instance of \<^verbatim>\<open>BinaryPerceptron\<close> itself runs them.\<close>

definition fit_one_of_BinaryPerceptron ::
  "('g, int) BinaryPerceptron \<Rightarrow> feature list \<Rightarrow> label \<Rightarrow>
   (error + bool) \<times> ('g, int) BinaryPerceptron" where
  "fit_one_of_BinaryPerceptron =
     BinaryPerceptron_fit_one BinaryPerceptron_predict
       (\<lambda>m x y. (Inr (), BinaryPerceptron_update m x y 1))"

text \<open>What a read of \<^verbatim>\<open>d[k]\<close> returns on a \<^verbatim>\<open>defaultdict(int)\<close>.\<close>

definition wget :: "('k, int) dict \<Rightarrow> 'k \<Rightarrow> int" where
  "wget d k = (case map_of d k of None \<Rightarrow> 0 | Some v \<Rightarrow> v)"

section \<open>LazyWeight\<close>

text \<open>
  \<open>weight\<close> and \<open>summed_weight\<close> start as the integer 0, and the values
  \<^verbatim>\<open>update\<close> adds are integers (the callers pass \<^verbatim>\<open>tau\<close> or its negation), so
  until \<^verbatim>\<open>average\<close> runs both fields are integers and the arithmetic of
  \<^verbatim>\<open>_freshen\<close> and \<^verbatim>\<open>update\<close> is exact, as it is in Python. \<^verbatim>\<open>average\<close>
  stores a float in \<open>weight\<close>; the fields are rationals here, a float being the rational
  it denotes. What \<^verbatim>\<open>_freshen\<close> computes from a stored float (in a second
  \<^verbatim>\<open>average\<close>, or an \<^verbatim>\<open>update\<close> after \<^verbatim>\<open>finalize\<close>) Python rounds; no theorem
  below reaches that case.
\<close>

record LazyWeight =
  timestamp :: int
  weight :: rat
  summed_weight :: rat

definition LazyWeight_init :: "int \<Rightarrow> LazyWeight" where
  "LazyWeight_init t = \<lparr>timestamp = t, weight = 0, summed_weight = 0\<rparr>"

definition LazyWeight_get :: "LazyWeight \<Rightarrow> rat" where
  "LazyWeight_get lw = weight lw"

definition LazyWeight_freshen :: "LazyWeight \<Rightarrow> int \<Rightarrow> LazyWeight" where
  "LazyWeight_freshen lw t =
     lw\<lparr>summed_weight := summed_weight lw + of_int (t - timestamp lw) * weight lw,
        timestamp := t\<rparr>"

definition LazyWeight_update :: "LazyWeight \<Rightarrow> int \<Rightarrow> int \<Rightarrow> LazyWeight" where
  "LazyWeight_update lw val t =
     (let lw1 = LazyWeight_freshen lw t in lw1\<lparr>weight := weight lw1 + of_int val\<rparr>)"

text \<open>
  \<^verbatim>\<open>self.summed_weight / t\<close> is Python's true division. By 0 it raises
  \<^verbatim>\<open>ZeroDivisionError\<close>. Otherwise it returns a float, the quotient rounded, or raises
  \<^verbatim>\<open>OverflowError\<close> when the quotient is beyond the range of a float. The rounding is
  not fixed here: the division by a divisor other than 0 is the argument \<open>truediv\<close>,
  from the dividend and the divisor to the exception or the float, and what is proved
  holds whatever \<open>truediv\<close> is. In a training run the dividend is an integer, the
  running sum of a weight that was never averaged. \<^verbatim>\<open>_freshen\<close> runs before the
  division, so an exception leaves the weight freshened and its \<open>weight\<close> field as it
  was.
\<close>

definition LazyWeight_average ::
  "(rat \<Rightarrow> int \<Rightarrow> error + rat) \<Rightarrow> LazyWeight \<Rightarrow> int \<Rightarrow> (error + unit) \<times> LazyWeight" where
  "LazyWeight_average truediv lw t =
     (let lw1 = LazyWeight_freshen lw t in
      if t = 0 then (Inl ZeroDivisionError, lw1)
      else
        (case truediv (summed_weight lw1) t of
           Inl e \<Rightarrow> (Inl e, lw1)
         | Inr q \<Rightarrow> (Inr (), lw1\<lparr>weight := q\<rparr>)))"

text \<open>
  A division that neither rounds nor overflows: one possible \<open>truediv\<close>, used where a
  theorem is applied to concrete numbers.
\<close>

definition exact_truediv :: "rat \<Rightarrow> int \<Rightarrow> error + rat" where
  "exact_truediv a b = Inr (a / of_int b)"

text \<open>
  \<^verbatim>\<open>weight == 0.\<close> in the two averaged \<^verbatim>\<open>finalize\<close> methods, where \<^verbatim>\<open>weight\<close> is
  a \<^verbatim>\<open>LazyWeight\<close>: the class defines no \<^verbatim>\<open>__eq__\<close>, so Python compares the two
  objects by identity, and a \<^verbatim>\<open>LazyWeight\<close> is never the float.
\<close>

definition LazyWeight_eq_float :: "LazyWeight \<Rightarrow> rat \<Rightarrow> bool" where
  "LazyWeight_eq_float lw x = False"

text \<open>A run of \<^verbatim>\<open>update\<close> calls, each a pair (value, time).\<close>

definition apply_updates :: "LazyWeight \<Rightarrow> (int \<times> int) list \<Rightarrow> LazyWeight" where
  "apply_updates lw us = foldl (\<lambda>w (val, t). LazyWeight_update w val t) lw us"

text \<open>
  The naive simulator of the specification, in its words: the weight current at tick
  \<open>k\<close> is the sum of the values of the updates made at or before \<open>k\<close>; the simulator
  records it at each of the ticks \<open>0, ..., T - 1\<close> and divides the total by \<open>T\<close>, with
  the same division.
\<close>

definition spec_weight_at_tick :: "(int \<times> int) list \<Rightarrow> int \<Rightarrow> int" where
  "spec_weight_at_tick us k = sum_list (map fst (filter (\<lambda>(val, t). t \<le> k) us))"

definition spec_naive_total :: "(int \<times> int) list \<Rightarrow> int \<Rightarrow> int" where
  "spec_naive_total us T = sum_list (map (spec_weight_at_tick us) [0..T - 1])"

definition spec_naive_average ::
  "(rat \<Rightarrow> int \<Rightarrow> error + rat) \<Rightarrow> (int \<times> int) list \<Rightarrow> int \<Rightarrow> error + rat" where
  "spec_naive_average truediv us T = truediv (of_int (spec_naive_total us T)) T"

text \<open>What \<open>summed_weight\<close> becomes when the weight is freshened at time \<open>T\<close>.\<close>

definition folded_to :: "int \<Rightarrow> LazyWeight \<Rightarrow> rat" where
  "folded_to T lw = summed_weight lw + of_int (T - timestamp lw) * weight lw"

section \<open>BinaryAveragedPerceptron\<close>

record ('g, 'w) BinaryAveragedPerceptron = "('g, 'w) BinaryPerceptron" +
  time :: int

definition BinaryAveragedPerceptron_init :: "'g \<Rightarrow> ('g, LazyWeight) BinaryAveragedPerceptron" where
  "BinaryAveragedPerceptron_init g = \<lparr>random = g, weights = [], time = 0\<rparr>"

text \<open>\<^verbatim>\<open>d[k].update(tau, t)\<close> on a \<^verbatim>\<open>defaultdict(LazyWeight)\<close>.\<close>

definition defaultdict_lazy_update ::
  "'k \<Rightarrow> int \<Rightarrow> int \<Rightarrow> ('k, LazyWeight) dict \<Rightarrow> ('k, LazyWeight) dict" where
  "defaultdict_lazy_update k tau t d =
     (case defaultdict_getitem (LazyWeight_init 0) d k of
        (lw, d1) \<Rightarrow> AList.update k (LazyWeight_update lw tau t) d1)"

fun BinaryAveragedPerceptron_predict_sum ::
  "(feature, LazyWeight) dict \<Rightarrow> feature list \<Rightarrow> rat \<Rightarrow> rat \<times> (feature, LazyWeight) dict" where
  "BinaryAveragedPerceptron_predict_sum w [] acc = (acc, w)"
| "BinaryAveragedPerceptron_predict_sum w (feature # x) acc =
     (case defaultdict_getitem (LazyWeight_init 0) w feature of
        (lw, w1) \<Rightarrow> BinaryAveragedPerceptron_predict_sum w1 x (acc + LazyWeight_get lw))"

definition BinaryAveragedPerceptron_predict ::
  "('g, LazyWeight) BinaryAveragedPerceptron \<Rightarrow> feature list \<Rightarrow>
   bool \<times> ('g, LazyWeight) BinaryAveragedPerceptron" where
  "BinaryAveragedPerceptron_predict m x =
     (case BinaryAveragedPerceptron_predict_sum (weights m) x 0 of
        (score, w) \<Rightarrow> (score \<ge> 0, m\<lparr>weights := w\<rparr>))"

fun BinaryAveragedPerceptron_update_loop ::
  "(feature, LazyWeight) dict \<Rightarrow> feature list \<Rightarrow> int \<Rightarrow> int \<Rightarrow> (feature, LazyWeight) dict" where
  "BinaryAveragedPerceptron_update_loop w [] tau t = w"
| "BinaryAveragedPerceptron_update_loop w (feature # x) tau t =
     BinaryAveragedPerceptron_update_loop (defaultdict_lazy_update feature tau t w) x tau t"

definition BinaryAveragedPerceptron_update ::
  "('g, LazyWeight) BinaryAveragedPerceptron \<Rightarrow> feature list \<Rightarrow> label \<Rightarrow> int \<Rightarrow>
   (error + unit) \<times> ('g, LazyWeight) BinaryAveragedPerceptron" where
  "BinaryAveragedPerceptron_update m x y tau =
     (if y = PyBool False then
        (Inr (), m\<lparr>weights :=
           BinaryAveragedPerceptron_update_loop (weights m) x (tau * (- 1)) (time m)\<rparr>)
      else if y \<noteq> PyBool True then (Inl ValueError, m)
      else
        (Inr (), m\<lparr>weights := BinaryAveragedPerceptron_update_loop (weights m) x tau (time m)\<rparr>))"

text \<open>
  \<^verbatim>\<open>fit_one\<close>: the inherited \<^verbatim>\<open>BinaryPerceptron.fit_one\<close>, run with the averaged
  \<^verbatim>\<open>predict\<close> and \<^verbatim>\<open>update\<close>, then \<^verbatim>\<open>self.time += 1\<close>; an exception of the
  inherited method leaves before the increment.
\<close>

definition fit_one_of_BinaryAveragedPerceptron ::
  "('g, LazyWeight) BinaryAveragedPerceptron \<Rightarrow> feature list \<Rightarrow> label \<Rightarrow>
   (error + bool) \<times> ('g, LazyWeight) BinaryAveragedPerceptron" where
  "fit_one_of_BinaryAveragedPerceptron m x y =
     (case BinaryPerceptron_fit_one BinaryAveragedPerceptron_predict
             (\<lambda>m x y. BinaryAveragedPerceptron_update m x y 1) m x y of
        (Inl e, m1) \<Rightarrow> (Inl e, m1)
      | (Inr retval, m1) \<Rightarrow> (Inr retval, m1\<lparr>time := time m1 + 1\<rparr>))"

text \<open>
  \<^verbatim>\<open>finalize\<close>: the first loop visits the items in order; \<^verbatim>\<open>weight.average\<close>
  mutates the object the dictionary holds, and an exception leaves the items visited
  so far averaged. The second loop deletes the keys collected in \<^verbatim>\<open>ready2die\<close>.
\<close>

fun BinaryAveragedPerceptron_finalize_loop ::
  "(rat \<Rightarrow> int \<Rightarrow> error + rat) \<Rightarrow> (feature, LazyWeight) dict \<Rightarrow> int \<Rightarrow> feature list \<Rightarrow>
   (error + feature list) \<times> (feature, LazyWeight) dict" where
  "BinaryAveragedPerceptron_finalize_loop truediv [] t ready2die = (Inr ready2die, [])"
| "BinaryAveragedPerceptron_finalize_loop truediv ((feature, lw) # items) t ready2die =
     (if LazyWeight_eq_float lw 0 then
        (case BinaryAveragedPerceptron_finalize_loop truediv items t (ready2die @ [feature]) of
           (r, items1) \<Rightarrow> (r, (feature, lw) # items1))
      else
        (case LazyWeight_average truediv lw t of
           (Inl e, lw1) \<Rightarrow> (Inl e, (feature, lw1) # items)
         | (Inr u, lw1) \<Rightarrow>
             (case BinaryAveragedPerceptron_finalize_loop truediv items t ready2die of
                (r, items1) \<Rightarrow> (r, (feature, lw1) # items1))))"

definition BinaryAveragedPerceptron_finalize ::
  "(rat \<Rightarrow> int \<Rightarrow> error + rat) \<Rightarrow> ('g, LazyWeight) BinaryAveragedPerceptron \<Rightarrow>
   (error + unit) \<times> ('g, LazyWeight) BinaryAveragedPerceptron" where
  "BinaryAveragedPerceptron_finalize truediv m =
     (case BinaryAveragedPerceptron_finalize_loop truediv (weights m) (time m) [] of
        (Inl e, w) \<Rightarrow> (Inl e, m\<lparr>weights := w\<rparr>)
      | (Inr ready2die, w) \<Rightarrow>
          (Inr (), m\<lparr>weights := foldl (\<lambda>d feature. AList.delete feature d) w ready2die\<rparr>))"

section \<open>Perceptron\<close>

record ('g, 'w) Perceptron =
  classes :: "label list"
  random :: 'g
  weights :: "(feature, (label, 'w) dict) dict"

definition Perceptron_init :: "label \<Rightarrow> 'g \<Rightarrow> ('g, int) Perceptron" where
  "Perceptron_init dflt g = \<lparr>classes = [dflt], random = g, weights = []\<rparr>"

text \<open>
  \<^verbatim>\<open>Perceptron.scores\<close> and \<^verbatim>\<open>AveragedPerceptron.scores\<close> are the same two loops;
  the averaged one reads each weight through \<^verbatim>\<open>.get()\<close>, which is the argument
  \<open>get\<close>. \<^verbatim>\<open>self.weights[feature]\<close> is a \<^verbatim>\<open>defaultdict\<close> read: an unseen
  feature gets an empty inner dictionary. \<^verbatim>\<open>scores\<close> is a plain \<^verbatim>\<open>dict\<close> whose
  keys are the classes.
\<close>

fun scores_items ::
  "('w \<Rightarrow> 'v) \<Rightarrow> (label, 'w) dict \<Rightarrow> (label, 'v::plus) dict \<Rightarrow> error + (label, 'v) dict" where
  "scores_items get [] scores = Inr scores"
| "scores_items get ((cls, w) # items) scores =
     (case dict_iadd cls (get w) scores of
        Inl e \<Rightarrow> Inl e
      | Inr scores1 \<Rightarrow> scores_items get items scores1)"

fun scores_loop ::
  "('w \<Rightarrow> 'v) \<Rightarrow> (feature, (label, 'w) dict) dict \<Rightarrow> feature list \<Rightarrow> (label, 'v::plus) dict \<Rightarrow>
   (error + (label, 'v) dict) \<times> (feature, (label, 'w) dict) dict" where
  "scores_loop get ws [] scores = (Inr scores, ws)"
| "scores_loop get ws (feature # x) scores =
     (case defaultdict_getitem [] ws feature of
        (items, ws1) \<Rightarrow>
          (case scores_items get items scores of
             Inl e \<Rightarrow> (Inl e, ws1)
           | Inr scores1 \<Rightarrow> scores_loop get ws1 x scores1))"

definition Perceptron_scores ::
  "(label list \<Rightarrow> label \<Rightarrow> nat) \<Rightarrow> ('g, int, 'z) Perceptron_scheme \<Rightarrow> feature list \<Rightarrow>
   (error + (label, int) dict) \<times> ('g, int, 'z) Perceptron_scheme" where
  "Perceptron_scores rank m x =
     (case scores_loop (\<lambda>w. w) (weights m) x (dict_fromkeys (set_iter rank (classes m)) 0) of
        (r, ws) \<Rightarrow> (r, m\<lparr>weights := ws\<rparr>))"

text \<open>\<^verbatim>\<open>predict\<close> calls \<^verbatim>\<open>self.scores\<close>, an argument.\<close>

definition Perceptron_predict ::
  "('m \<Rightarrow> feature list \<Rightarrow> (error + (label, 'v::linorder) dict) \<times> 'm) \<Rightarrow>
   'm \<Rightarrow> feature list \<Rightarrow> (error + label) \<times> 'm" where
  "Perceptron_predict scores m x =
     (case scores m x of
        (Inl e, m1) \<Rightarrow> (Inl e, m1)
      | (Inr s, m1) \<Rightarrow>
          (case py_max_by_value s of
             Inl e \<Rightarrow> (Inl e, m1)
           | Inr (argmax_score, v) \<Rightarrow> (Inr argmax_score, m1)))"

text \<open>
  \<^verbatim>\<open>fit_one\<close> calls \<^verbatim>\<open>self.predict\<close> and \<^verbatim>\<open>self.update\<close> (with the default
  \<^verbatim>\<open>tau\<close>), both arguments.
\<close>

definition Perceptron_fit_one ::
  "(('g, 'w, 'z) Perceptron_scheme \<Rightarrow> feature list \<Rightarrow> (error + label) \<times> ('g, 'w, 'z) Perceptron_scheme) \<Rightarrow>
   (('g, 'w, 'z) Perceptron_scheme \<Rightarrow> feature list \<Rightarrow> label \<Rightarrow> label \<Rightarrow> ('g, 'w, 'z) Perceptron_scheme) \<Rightarrow>
   ('g, 'w, 'z) Perceptron_scheme \<Rightarrow> feature list \<Rightarrow> label \<Rightarrow>
   (error + label) \<times> ('g, 'w, 'z) Perceptron_scheme" where
  "Perceptron_fit_one predict update m x y =
     (case predict (m\<lparr>classes := set_add y (classes m)\<rparr>) x of
        (Inl e, m1) \<Rightarrow> (Inl e, m1)
      | (Inr yhat, m1) \<Rightarrow>
          if y \<noteq> yhat then (Inr yhat, update m1 x y yhat) else (Inr yhat, m1))"

text \<open>
  \<^verbatim>\<open>update\<close>: \<^verbatim>\<open>feature_ptr\<close> is the inner dictionary itself, so the two
  assignments change the entry of \<^verbatim>\<open>feature\<close> in place; \<^verbatim>\<open>feature_ptr[yhat] -= tau\<close>
  adds \<open>- tau\<close>.
\<close>

fun Perceptron_update_loop ::
  "(feature, (label, int) dict) dict \<Rightarrow> feature list \<Rightarrow> label \<Rightarrow> label \<Rightarrow> int \<Rightarrow>
   (feature, (label, int) dict) dict" where
  "Perceptron_update_loop ws [] y yhat tau = ws"
| "Perceptron_update_loop ws (feature # x) y yhat tau =
     (case defaultdict_getitem [] ws feature of
        (feature_ptr, ws1) \<Rightarrow>
          Perceptron_update_loop
            (AList.update feature
               (defaultdict_iadd yhat (- tau) (defaultdict_iadd y tau feature_ptr)) ws1)
            x y yhat tau)"

definition Perceptron_update ::
  "('g, int, 'z) Perceptron_scheme \<Rightarrow> feature list \<Rightarrow> label \<Rightarrow> label \<Rightarrow> int \<Rightarrow>
   ('g, int, 'z) Perceptron_scheme" where
  "Perceptron_update m x y yhat tau =
     m\<lparr>weights := Perceptron_update_loop (weights m) x y yhat tau\<rparr>"

definition Perceptron_finalize ::
  "('g, int, 'z) Perceptron_scheme \<Rightarrow> ('g, int, 'z) Perceptron_scheme" where
  "Perceptron_finalize m =
     m\<lparr>weights :=
         map (\<lambda>(feature, clsweight). (feature, filter (\<lambda>(cls, w). w \<noteq> 0) clsweight))
           (weights m)\<rparr>"

section \<open>SequencePerceptron\<close>

record ('g, 'w) SequencePerceptron = "('g, 'w) Perceptron" +
  tfeats_fnc :: "label list \<Rightarrow> feature list"
  order :: int

definition SequencePerceptron_init ::
  "(label list \<Rightarrow> feature list) \<Rightarrow> int \<Rightarrow> label \<Rightarrow> 'g \<Rightarrow> ('g, int) SequencePerceptron" where
  "SequencePerceptron_init tf ord dflt g =
     \<lparr>classes = [dflt], random = g, weights = [], tfeats_fnc = tf, order = ord\<rparr>"

text \<open>
  \<^verbatim>\<open>_markov0_predict\<close> is a generator under the decorator \<^verbatim>\<open>listify\<close> of
  \<^verbatim>\<open>nlup.decorators\<close>, which is not among the sources.
  Modelled from the spec: \<^verbatim>\<open>listify\<close> collects the values the generator yields into
  a list (order 0 decodes each token on its own and returns the label sequence; an
  empty token sequence gives an empty label sequence).
\<close>

fun SequencePerceptron_markov0_predict ::
  "('m \<Rightarrow> feature list \<Rightarrow> (error + (label, 'v::linorder) dict) \<times> 'm) \<Rightarrow>
   'm \<Rightarrow> feature list list \<Rightarrow> (error + label list) \<times> 'm" where
  "SequencePerceptron_markov0_predict scores m [] = (Inr [], m)"
| "SequencePerceptron_markov0_predict scores m (x # xx) =
     (case scores m x of
        (Inl e, m1) \<Rightarrow> (Inl e, m1)
      | (Inr s, m1) \<Rightarrow>
          (case py_max_by_value s of
             Inl e \<Rightarrow> (Inl e, m1)
           | Inr (yhat, v) \<Rightarrow>
               (case SequencePerceptron_markov0_predict scores m1 xx of
                  (Inl e, m2) \<Rightarrow> (Inl e, m2)
                | (Inr yy, m2) \<Rightarrow> (Inr (yhat # yy), m2))))"

text \<open>
  \<^verbatim>\<open>_greedy_predict\<close> reads the name \<^verbatim>\<open>sequence\<close> in its loop body. Nothing binds
  that name: it is not a parameter or a local of the method, not a global of the module
  and not a builtin. Its binding is \<open>None\<close> here, and reading it raises
  \<^verbatim>\<open>NameError\<close>; the rest of the body is what the method would go on to do.
\<close>

definition sequence_binding :: "label list option" where
  "sequence_binding = None"

fun SequencePerceptron_greedy_loop ::
  "(('g, 'w, 'z) SequencePerceptron_scheme \<Rightarrow> feature list \<Rightarrow>
      (error + (label, 'v::linorder) dict) \<times> ('g, 'w, 'z) SequencePerceptron_scheme) \<Rightarrow>
   ('g, 'w, 'z) SequencePerceptron_scheme \<Rightarrow> feature list list \<Rightarrow> feature list list \<Rightarrow>
   label list \<Rightarrow>
   (error + feature list list \<times> label list) \<times> ('g, 'w, 'z) SequencePerceptron_scheme" where
  "SequencePerceptron_greedy_loop scores m [] xxt yyhat = (Inr (xxt, yyhat), m)"
| "SequencePerceptron_greedy_loop scores m (x # xx) xxt yyhat =
     (case sequence_binding of
        None \<Rightarrow> (Inl NameError, m)
      | Some sequence \<Rightarrow>
          (let xt = x @ tfeats_fnc m (py_slice_from (- order m) sequence) in
           case scores m xt of
             (Inl e, m1) \<Rightarrow> (Inl e, m1)
           | (Inr s, m1) \<Rightarrow>
               (case py_max_by_value s of
                  Inl e \<Rightarrow> (Inl e, m1)
                | Inr (yhat, v) \<Rightarrow>
                    SequencePerceptron_greedy_loop scores m1 xx (xxt @ [xt]) (yyhat @ [yhat]))))"

definition SequencePerceptron_greedy_predict ::
  "(('g, 'w, 'z) SequencePerceptron_scheme \<Rightarrow> feature list \<Rightarrow>
      (error + (label, 'v::linorder) dict) \<times> ('g, 'w, 'z) SequencePerceptron_scheme) \<Rightarrow>
   ('g, 'w, 'z) SequencePerceptron_scheme \<Rightarrow> feature list list \<Rightarrow>
   (error + feature list list \<times> label list) \<times> ('g, 'w, 'z) SequencePerceptron_scheme" where
  "SequencePerceptron_greedy_predict scores m xx = SequencePerceptron_greedy_loop scores m xx [] []"

definition SequencePerceptron_predict ::
  "(('g, 'w, 'z) SequencePerceptron_scheme \<Rightarrow> feature list \<Rightarrow>
      (error + (label, 'v::linorder) dict) \<times> ('g, 'w, 'z) SequencePerceptron_scheme) \<Rightarrow>
   ('g, 'w, 'z) SequencePerceptron_scheme \<Rightarrow> feature list list \<Rightarrow>
   (error + label list) \<times> ('g, 'w, 'z) SequencePerceptron_scheme" where
  "SequencePerceptron_predict scores m xx =
     (if order m \<le> 0 then SequencePerceptron_markov0_predict scores m xx
      else
        (case SequencePerceptron_greedy_predict scores m xx of
           (Inl e, m1) \<Rightarrow> (Inl e, m1)
         | (Inr (xxt, yyhat), m1) \<Rightarrow> (Inr yyhat, m1)))"

text \<open>The methods as an instance of \<^verbatim>\<open>SequencePerceptron\<close> itself runs them.\<close>

definition predict_of_SequencePerceptron ::
  "(label list \<Rightarrow> label \<Rightarrow> nat) \<Rightarrow> ('g, int) SequencePerceptron \<Rightarrow> feature list list \<Rightarrow>
   (error + label list) \<times> ('g, int) SequencePerceptron" where
  "predict_of_SequencePerceptron rank = SequencePerceptron_predict (Perceptron_scores rank)"

definition markov0_predict_of_SequencePerceptron ::
  "(label list \<Rightarrow> label \<Rightarrow> nat) \<Rightarrow> ('g, int) SequencePerceptron \<Rightarrow> feature list list \<Rightarrow>
   (error + label list) \<times> ('g, int) SequencePerceptron" where
  "markov0_predict_of_SequencePerceptron rank =
     SequencePerceptron_markov0_predict (Perceptron_scores rank)"

text \<open>
  \<^verbatim>\<open>predict_with_transitions\<close> reads \<^verbatim>\<open>self.order\<close>, an argument here because
  \<^verbatim>\<open>SequenceAveragedPerceptron\<close> inherits the method beside \<^verbatim>\<open>AveragedPerceptron\<close>.
  For a positive order it calls \<^verbatim>\<open>self._greedy_predict_with_transitions\<close>, a method
  that no class of the module defines: the attribute lookup raises
  \<^verbatim>\<open>AttributeError\<close>.
\<close>

definition SequencePerceptron_predict_with_transitions ::
  "int \<Rightarrow> ('m \<Rightarrow> feature list \<Rightarrow> (error + (label, 'v::linorder) dict) \<times> 'm) \<Rightarrow>
   'm \<Rightarrow> feature list list \<Rightarrow> (error + feature list list \<times> label list) \<times> 'm" where
  "SequencePerceptron_predict_with_transitions ord scores m xx =
     (if ord \<le> 0 then
        (case SequencePerceptron_markov0_predict scores m xx of
           (Inl e, m1) \<Rightarrow> (Inl e, m1)
         | (Inr yy, m1) \<Rightarrow> (Inr (xx, yy), m1))
      else (Inl AttributeError, m))"

text \<open>The loop of \<^verbatim>\<open>fit_one\<close> over \<^verbatim>\<open>zip(xxt, yy, yyhat)\<close>.\<close>

fun SequencePerceptron_fit_one_loop ::
  "('m \<Rightarrow> feature list \<Rightarrow> label \<Rightarrow> label \<Rightarrow> 'm) \<Rightarrow> 'm \<Rightarrow>
   (feature list \<times> label \<times> label) list \<Rightarrow> 'm" where
  "SequencePerceptron_fit_one_loop update m [] = m"
| "SequencePerceptron_fit_one_loop update m ((xt, y, yhat) # rest) =
     SequencePerceptron_fit_one_loop update (if y \<noteq> yhat then update m xt y yhat else m) rest"

definition SequencePerceptron_fit_one ::
  "int \<Rightarrow>
   (('g, 'w, 'z) Perceptron_scheme \<Rightarrow> feature list \<Rightarrow>
      (error + (label, 'v::linorder) dict) \<times> ('g, 'w, 'z) Perceptron_scheme) \<Rightarrow>
   (('g, 'w, 'z) Perceptron_scheme \<Rightarrow> feature list \<Rightarrow> label \<Rightarrow> label \<Rightarrow> ('g, 'w, 'z) Perceptron_scheme) \<Rightarrow>
   ('g, 'w, 'z) Perceptron_scheme \<Rightarrow> feature list list \<Rightarrow> label list \<Rightarrow>
   (error + label list) \<times> ('g, 'w, 'z) Perceptron_scheme" where
  "SequencePerceptron_fit_one ord scores update m xx yy =
     (case SequencePerceptron_predict_with_transitions ord scores
             (m\<lparr>classes := foldl (\<lambda>s y. set_add y s) (classes m) yy\<rparr>) xx of
        (Inl e, m1) \<Rightarrow> (Inl e, m1)
      | (Inr (xxt, yyhat), m1) \<Rightarrow>
          (Inr yyhat, SequencePerceptron_fit_one_loop update m1 (zip xxt (zip yy yyhat))))"

section \<open>AveragedPerceptron\<close>

record ('g, 'w) AveragedPerceptron = "('g, 'w) Perceptron" +
  time :: int

definition AveragedPerceptron_init :: "label \<Rightarrow> 'g \<Rightarrow> ('g, LazyWeight) AveragedPerceptron" where
  "AveragedPerceptron_init dflt g = \<lparr>classes = [dflt], random = g, weights = [], time = 0\<rparr>"

definition AveragedPerceptron_scores ::
  "(label list \<Rightarrow> label \<Rightarrow> nat) \<Rightarrow> ('g, LazyWeight, 'z) Perceptron_scheme \<Rightarrow> feature list \<Rightarrow>
   (error + (label, rat) dict) \<times> ('g, LazyWeight, 'z) Perceptron_scheme" where
  "AveragedPerceptron_scores rank m x =
     (case scores_loop LazyWeight_get (weights m) x
             (dict_fromkeys (set_iter rank (classes m)) 0) of
        (r, ws) \<Rightarrow> (r, m\<lparr>weights := ws\<rparr>))"

fun AveragedPerceptron_update_loop ::
  "(feature, (label, LazyWeight) dict) dict \<Rightarrow> feature list \<Rightarrow> label \<Rightarrow> label \<Rightarrow> int \<Rightarrow> int \<Rightarrow>
   (feature, (label, LazyWeight) dict) dict" where
  "AveragedPerceptron_update_loop ws [] y yhat tau t = ws"
| "AveragedPerceptron_update_loop ws (feature # x) y yhat tau t =
     (case defaultdict_getitem [] ws feature of
        (feature_ptr, ws1) \<Rightarrow>
          AveragedPerceptron_update_loop
            (AList.update feature
               (defaultdict_lazy_update yhat (- tau) t
                  (defaultdict_lazy_update y tau t feature_ptr)) ws1)
            x y yhat tau t)"

definition AveragedPerceptron_update ::
  "('g, LazyWeight, 'z) AveragedPerceptron_scheme \<Rightarrow> feature list \<Rightarrow> label \<Rightarrow> label \<Rightarrow> int \<Rightarrow>
   ('g, LazyWeight, 'z) AveragedPerceptron_scheme" where
  "AveragedPerceptron_update m x y yhat tau =
     m\<lparr>weights := AveragedPerceptron_update_loop (weights m) x y yhat tau (time m)\<rparr>"

text \<open>
  \<^verbatim>\<open>fit_one\<close>: \<^verbatim>\<open>super(AveragedPerceptron, self).fit_one(x, y)\<close>, an argument (the
  next class in the method resolution order of the instance), then
  \<^verbatim>\<open>self.time += 1\<close>; an exception of the inherited method leaves before the
  increment.
\<close>

definition AveragedPerceptron_fit_one ::
  "(('g, 'w, 'z) AveragedPerceptron_scheme \<Rightarrow> 'x \<Rightarrow> 'y \<Rightarrow>
      (error + 'r) \<times> ('g, 'w, 'z) AveragedPerceptron_scheme) \<Rightarrow>
   ('g, 'w, 'z) AveragedPerceptron_scheme \<Rightarrow> 'x \<Rightarrow> 'y \<Rightarrow>
   (error + 'r) \<times> ('g, 'w, 'z) AveragedPerceptron_scheme" where
  "AveragedPerceptron_fit_one super_fit_one m x y =
     (case super_fit_one m x y of
        (Inl e, m1) \<Rightarrow> (Inl e, m1)
      | (Inr retval, m1) \<Rightarrow> (Inr retval, m1\<lparr>time := time m1 + 1\<rparr>))"

text \<open>
  \<^verbatim>\<open>finalize\<close>: the nested loops visit the items in order; \<^verbatim>\<open>weight.average\<close>
  mutates the object the inner dictionary holds, and an exception leaves the items
  visited so far averaged. The last loop runs \<^verbatim>\<open>del self.weights[feature][cls]\<close> for
  the pairs collected in \<^verbatim>\<open>ready2die\<close>.
\<close>

fun AveragedPerceptron_finalize_items ::
  "(rat \<Rightarrow> int \<Rightarrow> error + rat) \<Rightarrow> feature \<Rightarrow> (label, LazyWeight) dict \<Rightarrow> int \<Rightarrow>
   (feature \<times> label) list \<Rightarrow> (error + (feature \<times> label) list) \<times> (label, LazyWeight) dict" where
  "AveragedPerceptron_finalize_items truediv feature [] t ready2die = (Inr ready2die, [])"
| "AveragedPerceptron_finalize_items truediv feature ((cls, lw) # items) t ready2die =
     (if LazyWeight_eq_float lw 0 then
        (case AveragedPerceptron_finalize_items truediv feature items t
                (ready2die @ [(feature, cls)]) of
           (r, items1) \<Rightarrow> (r, (cls, lw) # items1))
      else
        (case LazyWeight_average truediv lw t of
           (Inl e, lw1) \<Rightarrow> (Inl e, (cls, lw1) # items)
         | (Inr u, lw1) \<Rightarrow>
             (case AveragedPerceptron_finalize_items truediv feature items t ready2die of
                (r, items1) \<Rightarrow> (r, (cls, lw1) # items1))))"

fun AveragedPerceptron_finalize_loop ::
  "(rat \<Rightarrow> int \<Rightarrow> error + rat) \<Rightarrow> (feature, (label, LazyWeight) dict) dict \<Rightarrow> int \<Rightarrow>
   (feature \<times> label) list \<Rightarrow>
   (error + (feature \<times> label) list) \<times> (feature, (label, LazyWeight) dict) dict" where
  "AveragedPerceptron_finalize_loop truediv [] t ready2die = (Inr ready2die, [])"
| "AveragedPerceptron_finalize_loop truediv ((feature, clsweights) # rest) t ready2die =
     (case AveragedPerceptron_finalize_items truediv feature clsweights t ready2die of
        (Inl e, clsweights1) \<Rightarrow> (Inl e, (feature, clsweights1) # rest)
      | (Inr ready2die1, clsweights1) \<Rightarrow>
          (case AveragedPerceptron_finalize_loop truediv rest t ready2die1 of
             (r, rest1) \<Rightarrow> (r, (feature, clsweights1) # rest1)))"

definition AveragedPerceptron_finalize ::
  "(rat \<Rightarrow> int \<Rightarrow> error + rat) \<Rightarrow> ('g, LazyWeight, 'z) AveragedPerceptron_scheme \<Rightarrow>
   (error + unit) \<times> ('g, LazyWeight, 'z) AveragedPerceptron_scheme" where
  "AveragedPerceptron_finalize truediv m =
     (case AveragedPerceptron_finalize_loop truediv (weights m) (time m) [] of
        (Inl e, ws) \<Rightarrow> (Inl e, m\<lparr>weights := ws\<rparr>)
      | (Inr ready2die, ws) \<Rightarrow>
          (Inr (), m\<lparr>weights :=
             foldl (\<lambda>d (feature, cls). AList.map_entry feature (AList.delete cls) d)
               ws ready2die\<rparr>))"

text \<open>The methods as an instance of \<^verbatim>\<open>AveragedPerceptron\<close> itself runs them.\<close>

definition fit_one_of_AveragedPerceptron ::
  "(label list \<Rightarrow> label \<Rightarrow> nat) \<Rightarrow> ('g, LazyWeight) AveragedPerceptron \<Rightarrow> feature list \<Rightarrow> label \<Rightarrow>
   (error + label) \<times> ('g, LazyWeight) AveragedPerceptron" where
  "fit_one_of_AveragedPerceptron rank =
     AveragedPerceptron_fit_one
       (Perceptron_fit_one (Perceptron_predict (AveragedPerceptron_scores rank))
          (\<lambda>m x y yhat. AveragedPerceptron_update m x y yhat 1))"

section \<open>SequenceAveragedPerceptron\<close>

text \<open>
  \<^verbatim>\<open>class SequenceAveragedPerceptron(AveragedPerceptron, SequencePerceptron)\<close>: the
  method resolution order is \<^verbatim>\<open>SequenceAveragedPerceptron\<close>, \<^verbatim>\<open>AveragedPerceptron\<close>,
  \<^verbatim>\<open>SequencePerceptron\<close>, \<^verbatim>\<open>Perceptron\<close>. So \<^verbatim>\<open>fit_one\<close>, \<^verbatim>\<open>scores\<close>,
  \<^verbatim>\<open>update\<close> and \<^verbatim>\<open>finalize\<close> are those of \<^verbatim>\<open>AveragedPerceptron\<close>, the
  \<^verbatim>\<open>super\<close> call inside that \<^verbatim>\<open>fit_one\<close> reaches \<^verbatim>\<open>SequencePerceptron.fit_one\<close>,
  and \<^verbatim>\<open>fit\<close> is \<^verbatim>\<open>SequencePerceptron.fit\<close>. The constructor's
  \<^verbatim>\<open>tfeats_fnc\<close> defaults to \<^verbatim>\<open>None\<close>.
\<close>

record ('g, 'w) SequenceAveragedPerceptron = "('g, 'w) AveragedPerceptron" +
  tfeats_fnc :: "(label list \<Rightarrow> feature list) option"
  order :: int

definition SequenceAveragedPerceptron_init ::
  "(label list \<Rightarrow> feature list) option \<Rightarrow> int \<Rightarrow> label \<Rightarrow> 'g \<Rightarrow>
   ('g, LazyWeight) SequenceAveragedPerceptron" where
  "SequenceAveragedPerceptron_init tf ord dflt g =
     \<lparr>classes = [dflt], random = g, weights = [], time = 0, tfeats_fnc = tf, order = ord\<rparr>"

definition fit_one_of_SequenceAveragedPerceptron ::
  "(label list \<Rightarrow> label \<Rightarrow> nat) \<Rightarrow> ('g, LazyWeight) SequenceAveragedPerceptron \<Rightarrow>
   feature list list \<Rightarrow> label list \<Rightarrow>
   (error + label list) \<times> ('g, LazyWeight) SequenceAveragedPerceptron" where
  "fit_one_of_SequenceAveragedPerceptron rank m xx yy =
     AveragedPerceptron_fit_one
       (SequencePerceptron_fit_one (order m) (AveragedPerceptron_scores rank)
          (\<lambda>m x y yhat. AveragedPerceptron_update m x y yhat 1))
       m xx yy"

section \<open>The training loop\<close>

text \<open>
  \<^verbatim>\<open>Classifier.fit\<close> and \<^verbatim>\<open>SequencePerceptron.fit\<close> are the same loop (they differ in
  the accuracy bookkeeping only). \<open>shuffle\<close> is what \<^verbatim>\<open>self.random.shuffle(data)\<close> does
  to the list and to the model's generator; it shuffles in place, so every epoch starts
  from the order the one before left. \<^verbatim>\<open>range(1, 1 + epochs)\<close> is empty for
  \<open>epochs \<le> 0\<close>. \<^verbatim>\<open>finalize\<close> is called once, after the last epoch, unless an
  exception ended the run before.
\<close>

fun fit_instances ::
  "('m \<Rightarrow> 'x \<Rightarrow> 'y \<Rightarrow> (error + 'r) \<times> 'm) \<Rightarrow> 'm \<Rightarrow> ('x \<times> 'y) list \<Rightarrow> (error + unit) \<times> 'm" where
  "fit_instances fit_one m [] = (Inr (), m)"
| "fit_instances fit_one m ((x, y) # data) =
     (case fit_one m x y of
        (Inl e, m1) \<Rightarrow> (Inl e, m1)
      | (Inr yhat, m1) \<Rightarrow> fit_instances fit_one m1 data)"

fun fit_epochs ::
  "('m \<Rightarrow> ('x \<times> 'y) list \<Rightarrow> ('x \<times> 'y) list \<times> 'm) \<Rightarrow> ('m \<Rightarrow> 'x \<Rightarrow> 'y \<Rightarrow> (error + 'r) \<times> 'm) \<Rightarrow>
   nat \<Rightarrow> 'm \<Rightarrow> ('x \<times> 'y) list \<Rightarrow> (error + unit) \<times> 'm" where
  "fit_epochs shuffle fit_one 0 m data = (Inr (), m)"
| "fit_epochs shuffle fit_one (Suc n) m data =
     (case shuffle m data of
        (data1, m1) \<Rightarrow>
          (case fit_instances fit_one m1 data1 of
             (Inl e, m2) \<Rightarrow> (Inl e, m2)
           | (Inr u, m2) \<Rightarrow> fit_epochs shuffle fit_one n m2 data1))"

definition Classifier_fit ::
  "('m \<Rightarrow> ('x \<times> 'y) list \<Rightarrow> ('x \<times> 'y) list \<times> 'm) \<Rightarrow> ('m \<Rightarrow> 'x \<Rightarrow> 'y \<Rightarrow> (error + 'r) \<times> 'm) \<Rightarrow>
   ('m \<Rightarrow> (error + unit) \<times> 'm) \<Rightarrow> 'm \<Rightarrow> 'x list \<Rightarrow> 'y list \<Rightarrow> int \<Rightarrow> (error + unit) \<times> 'm" where
  "Classifier_fit shuffle fit_one finalize m X Y epochs =
     (case fit_epochs shuffle fit_one (nat epochs) m (zip X Y) of
        (Inl e, m1) \<Rightarrow> (Inl e, m1)
      | (Inr u, m1) \<Rightarrow> finalize m1)"

definition SequencePerceptron_fit ::
  "('m \<Rightarrow> ('x \<times> 'y) list \<Rightarrow> ('x \<times> 'y) list \<times> 'm) \<Rightarrow> ('m \<Rightarrow> 'x \<Rightarrow> 'y \<Rightarrow> (error + 'r) \<times> 'm) \<Rightarrow>
   ('m \<Rightarrow> (error + unit) \<times> 'm) \<Rightarrow> 'm \<Rightarrow> 'x list \<Rightarrow> 'y list \<Rightarrow> int \<Rightarrow> (error + unit) \<times> 'm" where
  "SequencePerceptron_fit shuffle fit_one finalize m XX YY epochs =
     (case fit_epochs shuffle fit_one (nat epochs) m (zip XX YY) of
        (Inl e, m1) \<Rightarrow> (Inl e, m1)
      | (Inr u, m1) \<Rightarrow> finalize m1)"

text \<open>
  What the training loop uses of \<^verbatim>\<open>Random.shuffle\<close>: the list it leaves is a
  permutation of the list it was given.
\<close>

definition permutes :: "('g \<Rightarrow> 'a list \<Rightarrow> 'a list \<times> 'g) \<Rightarrow> bool" where
  "permutes shuffle = (\<forall>g data. mset (fst (shuffle g data)) = mset data)"



definition fit_of_BinaryAveragedPerceptron ::
  "(rat \<Rightarrow> int \<Rightarrow> error + rat) \<Rightarrow>
   ('g \<Rightarrow> (feature list \<times> label) list \<Rightarrow> (feature list \<times> label) list \<times> 'g) \<Rightarrow>
   ('g, LazyWeight) BinaryAveragedPerceptron \<Rightarrow> feature list list \<Rightarrow> label list \<Rightarrow> int \<Rightarrow>
   (error + unit) \<times> ('g, LazyWeight) BinaryAveragedPerceptron" where
  "fit_of_BinaryAveragedPerceptron truediv shuffle =
     Classifier_fit
       (\<lambda>m data. case shuffle (BinaryPerceptron.random m) data of
                    (data1, g1) \<Rightarrow> (data1, m\<lparr>BinaryPerceptron.random := g1\<rparr>))
       fit_one_of_BinaryAveragedPerceptron (BinaryAveragedPerceptron_finalize truediv)"

definition fit_of_AveragedPerceptron ::
  "(label list \<Rightarrow> label \<Rightarrow> nat) \<Rightarrow> (rat \<Rightarrow> int \<Rightarrow> error + rat) \<Rightarrow>
   ('g \<Rightarrow> (feature list \<times> label) list \<Rightarrow> (feature list \<times> label) list \<times> 'g) \<Rightarrow>
   ('g, LazyWeight) AveragedPerceptron \<Rightarrow> feature list list \<Rightarrow> label list \<Rightarrow> int \<Rightarrow>
   (error + unit) \<times> ('g, LazyWeight) AveragedPerceptron" where
  "fit_of_AveragedPerceptron rank truediv shuffle =
     Classifier_fit
       (\<lambda>m data. case shuffle (random m) data of (data1, g1) \<Rightarrow> (data1, m\<lparr>random := g1\<rparr>))
       (fit_one_of_AveragedPerceptron rank) (AveragedPerceptron_finalize truediv)"

definition fit_of_SequenceAveragedPerceptron ::
  "(label list \<Rightarrow> label \<Rightarrow> nat) \<Rightarrow> (rat \<Rightarrow> int \<Rightarrow> error + rat) \<Rightarrow>
   ('g \<Rightarrow> (feature list list \<times> label list) list \<Rightarrow> (feature list list \<times> label list) list \<times> 'g) \<Rightarrow>
   ('g, LazyWeight) SequenceAveragedPerceptron \<Rightarrow> feature list list list \<Rightarrow> label list list \<Rightarrow>
   int \<Rightarrow> (error + unit) \<times> ('g, LazyWeight) SequenceAveragedPerceptron" where
  "fit_of_SequenceAveragedPerceptron rank truediv shuffle =
     SequencePerceptron_fit
       (\<lambda>m data. case shuffle (random m) data of (data1, g1) \<Rightarrow> (data1, m\<lparr>random := g1\<rparr>))
       (fit_one_of_SequenceAveragedPerceptron rank) (AveragedPerceptron_finalize truediv)"

section \<open>Notions used in the proofs\<close>

text \<open>
  What iterating \<^verbatim>\<open>self.weights[feature].items()\<close> yields: the inner dictionary of
  the feature, or nothing for a feature the store has not seen.
\<close>

definition items_of :: "('k, ('c, 'w) dict) dict \<Rightarrow> 'k \<Rightarrow> ('c, 'w) dict" where
  "items_of ws f = (case map_of ws f of None \<Rightarrow> [] | Some d \<Rightarrow> d)"

text \<open>The outcome of the loops of \<^verbatim>\<open>scores\<close>, as a function of those items.\<close>

fun scores_pure ::
  "('w \<Rightarrow> 'v) \<Rightarrow> (feature \<Rightarrow> (label, 'w) dict) \<Rightarrow> feature list \<Rightarrow> (label, 'v::plus) dict \<Rightarrow>
   error + (label, 'v) dict" where
  "scores_pure get I [] scores = Inr scores"
| "scores_pure get I (feature # x) scores =
     (case scores_items get (I feature) scores of
        Inl e \<Rightarrow> Inl e
      | Inr scores1 \<Rightarrow> scores_pure get I x scores1)"

text \<open>An inner dictionary after \<^verbatim>\<open>d[y] += tau; d[y] -= tau\<close>.\<close>

definition touched :: "'c \<Rightarrow> ('c, int) dict \<Rightarrow> ('c, int) dict" where
  "touched y d = (if y \<in> fst ` set d then d else d @ [(y, 0)])"

text \<open>
  Every class that keys a weight is registered in the set \<open>C\<close>: what \<^verbatim>\<open>scores\<close>
  needs in order not to raise \<^verbatim>\<open>KeyError\<close>.
\<close>

definition registered :: "label set \<Rightarrow> (feature, (label, 'w) dict) dict \<Rightarrow> bool" where
  "registered C ws = (\<forall>f. fst ` set (items_of ws f) \<subseteq> C)"

text \<open>
  What holds of an averaged model between two training instances: the time is not
  negative, and no weight is stored while it is 0 (so \<^verbatim>\<open>finalize\<close> never divides
  by 0); in the multiclass models the class set is not empty and every class that keys
  a weight is registered; in the sequence model the order is not positive.
\<close>

definition BAP_inv :: "('g, LazyWeight) BinaryAveragedPerceptron \<Rightarrow> bool" where
  "BAP_inv m = (0 \<le> BinaryAveragedPerceptron.time m
     \<and> (BinaryAveragedPerceptron.time m \<noteq> 0 \<or> BinaryPerceptron.weights m = []))"

definition AP_inv :: "('g, LazyWeight, 'z) AveragedPerceptron_scheme \<Rightarrow> bool" where
  "AP_inv m = (classes m \<noteq> [] \<and> registered (set (classes m)) (weights m)
     \<and> 0 \<le> AveragedPerceptron.time m \<and> (AveragedPerceptron.time m \<noteq> 0 \<or> weights m = []))"

definition SAP_inv :: "('g, LazyWeight) SequenceAveragedPerceptron \<Rightarrow> bool" where
  "SAP_inv m = (AP_inv m \<and> SequenceAveragedPerceptron.order m \<le> 0)"

text \<open>
  The outcome of a call that either returned or was ended by an exception of the
  division.
\<close>

definition raised_by_division :: "(rat \<Rightarrow> int \<Rightarrow> error + rat) \<Rightarrow> error + 'a \<Rightarrow> bool" where
  "raised_by_division truediv r =
     (case r of Inr u \<Rightarrow> True | Inl e \<Rightarrow> (\<exists>a b. b \<noteq> 0 \<and> truediv a b = Inl e))"

section \<open>Theorems\<close>

subsection \<open>LazyWeight\<close>

lemma folded_to_update:
  "folded_to T (LazyWeight_update lw val t) = folded_to T lw + of_int ((T - t) * val)"
  by (simp add: folded_to_def LazyWeight_update_def LazyWeight_freshen_def Let_def algebra_simps)

lemma folded_to_apply_updates:
  "folded_to T (apply_updates lw us) =
     folded_to T lw + of_int (\<Sum>(val, t)\<leftarrow>us. (T - t) * val)"
  unfolding apply_updates_def
  by (induction us arbitrary: lw) (auto simp: folded_to_update)

lemma average_folded:
  "T \<noteq> 0 \<Longrightarrow> LazyWeight_average truediv lw T =
     (case truediv (folded_to T lw) T of
        Inl e \<Rightarrow> (Inl e, LazyWeight_freshen lw T)
      | Inr q \<Rightarrow> (Inr (), (LazyWeight_freshen lw T)\<lparr>weight := q\<rparr>))"
  by (simp add: LazyWeight_average_def Let_def folded_to_def LazyWeight_freshen_def
      split: sum.splits)

text \<open>
  With a divisor other than 0, \<^verbatim>\<open>average\<close> raises what the division raises, and
  nothing else.
\<close>

lemma LazyWeight_average_raises:
  "t \<noteq> 0 \<Longrightarrow> truediv (folded_to t lw) t = Inl e \<Longrightarrow>
     LazyWeight_average truediv lw t = (Inl e, LazyWeight_freshen lw t)"
  by (simp add: average_folded)

lemma LazyWeight_average_outcome:
  "t \<noteq> 0 \<Longrightarrow> raised_by_division truediv (fst (LazyWeight_average truediv lw t))"
  by (auto simp: average_folded raised_by_division_def split: sum.splits)

lemma raised_by_exact_truediv: "raised_by_division exact_truediv r = (\<exists>u. r = Inr u)"
  by (cases r) (simp_all add: raised_by_division_def exact_truediv_def)

lemma step_ticks:
  fixes t T d :: int
  assumes "0 \<le> t" "t \<le> T"
  shows "(\<Sum>k\<leftarrow>[0..T - 1]. if t \<le> k then d else 0) = (T - t) * d"
proof -
  have "(\<Sum>k\<leftarrow>[0..T - 1]. if t \<le> k then d else 0) =
        (\<Sum>k\<in>{0..T - 1}. if t \<le> k then d else 0)"
    by (simp add: interv_sum_list_conv_sum_set_int)
  also have "\<dots> = (\<Sum>k\<in>{t..T - 1}. d)"
    using assms by (intro sum.mono_neutral_cong_right) auto
  also have "\<dots> = (T - t) * d"
    using assms by simp
  finally show ?thesis .
qed

lemma spec_weight_at_tick_Cons:
  "spec_weight_at_tick ((val, t) # us) k =
     (if t \<le> k then val else 0) + spec_weight_at_tick us k"
  by (simp add: spec_weight_at_tick_def)

lemma naive_total:
  "list_all (\<lambda>(val, t). 0 \<le> t \<and> t \<le> T) us \<Longrightarrow>
     spec_naive_total us T = (\<Sum>(val, t)\<leftarrow>us. (T - t) * val)"
  unfolding spec_naive_total_def
proof (induction us)
  case Nil
  then show ?case by (simp add: spec_weight_at_tick_def)
next
  case (Cons u us)
  obtain val t where u: "u = (val, t)" by (cases u)
  from Cons.prems u have t: "0 \<le> t" "t \<le> T"
    and rest: "list_all (\<lambda>(val, t). 0 \<le> t \<and> t \<le> T) us"
    by auto
  show ?case
    unfolding u spec_weight_at_tick_Cons
    by (simp add: sum_list_addf step_ticks[OF t] Cons.IH[OF rest])
qed

text \<open>
  Update times that do not decrease from the timestamp 0 of the fresh weight, none
  beyond \<open>T\<close>, all lie in \<open>[0, T]\<close>.
\<close>

lemma times_in_range:
  assumes "sorted (timestamp (LazyWeight_init 0) # map snd us)"
    and "list_all (\<lambda>t. t \<le> T) (map snd us)"
  shows "list_all (\<lambda>(val, t). 0 \<le> t \<and> t \<le> T) us"
  using assms by (auto simp: LazyWeight_init_def list_all_iff)

text \<open>
  Freshened at \<open>T\<close>, the running sum of the lazy weight is the total of the naive
  simulator, whenever every update time lies in \<open>[0, T]\<close>.
\<close>

lemma folded_eq_naive_total:
  assumes "list_all (\<lambda>(val, t). 0 \<le> t \<and> t \<le> T) us"
  shows "folded_to T (apply_updates (LazyWeight_init 0) us) = of_int (spec_naive_total us T)"
proof -
  have "folded_to T (LazyWeight_init 0) = 0"
    by (simp add: folded_to_def LazyWeight_init_def)
  then show ?thesis using assms
    by (simp add: folded_to_apply_updates naive_total)
qed

lemma lazy_average_eq_naive:
  assumes "list_all (\<lambda>(val, t). 0 \<le> t \<and> t \<le> T) us" "0 < T"
  shows "LazyWeight_average truediv (apply_updates (LazyWeight_init 0) us) T =
    (case spec_naive_average truediv us T of
       Inl e \<Rightarrow> (Inl e, LazyWeight_freshen (apply_updates (LazyWeight_init 0) us) T)
     | Inr q \<Rightarrow> (Inr (), (LazyWeight_freshen (apply_updates (LazyWeight_init 0) us) T)
                            \<lparr>weight := q\<rparr>))"
  using assms(2)
  by (simp add: average_folded folded_eq_naive_total[OF assms(1)] spec_naive_average_def)

lemma summed_weight_freshen: "summed_weight (LazyWeight_freshen lw T) = folded_to T lw"
  by (simp add: LazyWeight_freshen_def folded_to_def)

text \<open>
  Claim C3. \<^verbatim>\<open>LazyWeight.update(value, t)\<close> is one \<^verbatim>\<open>_freshen(t)\<close> followed by the
  addition of the value to the weight: the running sum grows by the elapsed time
  \<open>t - timestamp\<close> times the weight as it was before the call (exactly one fold, the
  added value not yet in it), the timestamp becomes \<open>t\<close>, and the weight grows by the
  value.
\<close>

theorem LazyWeight_update_folds_then_adds:
  "LazyWeight_update lw val t =
     (LazyWeight_freshen lw t)\<lparr>weight := weight (LazyWeight_freshen lw t) + of_int val\<rparr>
   \<and> summed_weight (LazyWeight_update lw val t) =
       summed_weight lw + of_int (t - timestamp lw) * weight lw
   \<and> timestamp (LazyWeight_update lw val t) = t
   \<and> weight (LazyWeight_update lw val t) = weight lw + of_int val"
  by (simp add: LazyWeight_update_def LazyWeight_freshen_def Let_def)

text \<open>
  Claim C2. For every finite sequence of \<^verbatim>\<open>update(value, t)\<close> calls applied to a
  fresh \<^verbatim>\<open>LazyWeight\<close>, the times non-decreasing from the timestamp 0 the fresh
  weight starts with, followed by \<^verbatim>\<open>average(T)\<close> with \<open>T > 0\<close> and \<open>T\<close> at least
  every update time: the weight \<^verbatim>\<open>average\<close> leaves is the value the naive simulator
  computes, the total of the weight over the ticks \<open>0, ..., T - 1\<close> divided by \<open>T\<close>.
  The running sum \<^verbatim>\<open>average\<close> divides is that total itself, an integer, so the
  two divisions are the same division: they give the same float, or raise the same
  exception, however the division rounds.
\<close>

theorem lazy_average_matches_naive_simulator:
  assumes "sorted (timestamp (LazyWeight_init 0) # map snd us)"
    and "list_all (\<lambda>t. t \<le> T) (map snd us)"
    and "0 < T"
  shows "(case LazyWeight_average truediv (apply_updates (LazyWeight_init 0) us) T of
            (Inl e, lw) \<Rightarrow> Inl e
          | (Inr u, lw) \<Rightarrow> Inr (weight lw)) = spec_naive_average truediv us T
    \<and> summed_weight (snd (LazyWeight_average truediv
          (apply_updates (LazyWeight_init 0) us) T)) = of_int (spec_naive_total us T)"
proof -
  note r = times_in_range[OF assms(1,2)]
  show ?thesis
    unfolding lazy_average_eq_naive[OF r assms(3)]
    by (simp add: summed_weight_freshen folded_eq_naive_total[OF r] split: sum.splits)
qed

theorem lazy_average_matches_naive_simulator_witness:
  "sorted (timestamp (LazyWeight_init 0) # map snd [(1::int, 0::int), (- 2, 1), (1, 1), (3, 4)])
   \<and> list_all (\<lambda>t. t \<le> 5) (map snd [(1::int, 0::int), (- 2, 1), (1, 1), (3, 4)])
   \<and> (0::int) < 5
   \<and> (case LazyWeight_average exact_truediv
             (apply_updates (LazyWeight_init 0) [(1, 0), (- 2, 1), (1, 1), (3, 4)]) 5 of
         (Inl e, lw) \<Rightarrow> Inl e
       | (Inr u, lw) \<Rightarrow> Inr (weight lw)) = Inr (4 / 5)
   \<and> spec_naive_average exact_truediv [(1, 0), (- 2, 1), (1, 1), (3, 4)] 5 = Inr (4 / 5)
   \<and> spec_naive_total [(1, 0), (- 2, 1), (1, 1), (3, 4)] 5 = 4"
proof -
  have s: "sorted (timestamp (LazyWeight_init 0) #
                   map snd [(1::int, 0::int), (- 2, 1), (1, 1), (3, 4)])"
    by (simp add: LazyWeight_init_def)
  have r: "list_all (\<lambda>t. t \<le> 5) (map snd [(1::int, 0::int), (- 2, 1), (1, 1), (3, 4)])"
    by simp
  have t: "spec_naive_total [(1, 0), (- 2, 1), (1, 1), (3, 4)] 5 = 4"
    by (simp add: spec_naive_total_def spec_weight_at_tick_def upto.simps)
  have n: "spec_naive_average exact_truediv [(1, 0), (- 2, 1), (1, 1), (3, 4)] 5 = Inr (4 / 5)"
    by (simp add: spec_naive_average_def t exact_truediv_def)
  from lazy_average_matches_naive_simulator [OF s r, of exact_truediv] s r n t show ?thesis
    by simp
qed

subsection \<open>The binary perceptron\<close>

lemma getitem_int:
  "defaultdict_getitem 0 d k = (v, d1) \<Longrightarrow>
     v = wget d k \<and> wget d1 = wget d \<and> map_of d1 k = Some v"
  by (auto simp: defaultdict_getitem_def wget_def fun_eq_iff map_add_def
      split: option.splits if_splits)

lemma score_sum_eq:
  "fst (BinaryPerceptron_score_sum w x acc) = acc + sum_list (map (wget w) x)"
proof (induction x arbitrary: w acc)
  case Nil
  then show ?case by simp
next
  case (Cons f x)
  obtain v w1 where g: "defaultdict_getitem 0 w f = (v, w1)"
    by (cases "defaultdict_getitem 0 w f")
  from getitem_int[OF g] show ?case by (simp add: g Cons.IH)
qed

lemma wget_score_sum: "wget (snd (BinaryPerceptron_score_sum w x acc)) = wget w"
proof (induction x arbitrary: w acc)
  case Nil
  then show ?case by simp
next
  case (Cons f x)
  obtain v w1 where g: "defaultdict_getitem 0 w f = (v, w1)"
    by (cases "defaultdict_getitem 0 w f")
  from getitem_int[OF g] show ?case by (simp add: g Cons.IH)
qed

lemma wget_iadd:
  "wget (defaultdict_iadd k tau d) k' = wget d k' + (if k' = k then tau else 0)"
proof -
  obtain v d1 where g: "defaultdict_getitem 0 d k = (v, d1)"
    by (cases "defaultdict_getitem 0 d k")
  from getitem_int[OF g] have "v = wget d k" "wget d1 k' = wget d k'" by auto
  then show ?thesis
    by (auto simp: defaultdict_iadd_def g wget_def update_conv')
qed

lemma wget_update_loop:
  "wget (BinaryPerceptron_update_loop w x tau) =
     (\<lambda>f. wget w f + tau * int (count_list x f))"
  by (induction x arbitrary: w) (auto simp: wget_iadd algebra_simps fun_eq_iff)

lemma count_list_distinct: "distinct x \<Longrightarrow> f \<in> set x \<Longrightarrow> count_list x f = 1"
  by (induction x) auto

lemma sum_count_distinct:
  assumes "distinct x"
  shows "(\<Sum>f\<leftarrow>x. int (count_list x f)) = int (length x)"
proof -
  have "(\<Sum>f\<leftarrow>x. int (count_list x f)) = (\<Sum>f\<leftarrow>x. 1)"
    using assms
    by (intro arg_cong[where f = sum_list] map_cong) (auto simp: count_list_distinct)
  also have "\<dots> = int (length x)"
    by (simp add: sum_list_triv)
  finally show ?thesis .
qed

text \<open>
  One \<^verbatim>\<open>update\<close> moves the score of the same vector by the signed step times the
  number of pairs of equal features in it.
\<close>

lemma score_after_update:
  "fst (BinaryPerceptron_score (BinaryPerceptron_update m x y tau) x) =
     fst (BinaryPerceptron_score m x)
     + (if y = PyBool False then - tau else tau) * (\<Sum>f\<leftarrow>x. int (count_list x f))"
  by (simp add: BinaryPerceptron_score_def BinaryPerceptron_update_def split_beta
      score_sum_eq Let_def wget_update_loop sum_list_addf sum_list_const_mult)

lemma wget_Nil: "wget [] = (\<lambda>f. 0)"
  by (simp add: wget_def fun_eq_iff)

lemma score_after_score:
  "fst (BinaryPerceptron_score (snd (BinaryPerceptron_score m x')) x) =
     fst (BinaryPerceptron_score m x)"
  by (simp add: BinaryPerceptron_score_def split_beta score_sum_eq wget_score_sum)

text \<open>
  Claim C7. For every list \<open>x\<close> of distinct features and every boolean \<open>y\<close>, one
  \<^verbatim>\<open>update(x, y)\<close> on a fresh binary model changes \<^verbatim>\<open>score(x)\<close> by exactly the
  length of \<open>x\<close> when \<open>y\<close> is true and by minus the length when \<open>y\<close> is false. The
  score before is read on the fresh model; the statement holds whether or not that
  read (which stores a zero for every feature of \<open>x\<close>) comes before the update.
\<close>

theorem binary_update_changes_score:
  assumes "distinct x"
  shows "fst (BinaryPerceptron_score
           (BinaryPerceptron_update
              (snd (BinaryPerceptron_score (BinaryPerceptron_init g) x)) x (PyBool y) 1) x)
         - fst (BinaryPerceptron_score (BinaryPerceptron_init g) x)
         = (if y then int (length x) else - int (length x))
     \<and> fst (BinaryPerceptron_score
           (BinaryPerceptron_update (BinaryPerceptron_init g) x (PyBool y) 1) x)
         - fst (BinaryPerceptron_score (BinaryPerceptron_init g) x)
         = (if y then int (length x) else - int (length x))"
  using assms by (simp add: score_after_update score_after_score sum_count_distinct)

theorem binary_update_changes_score_witness:
  "distinct [''a'', ''b'']
   \<and> fst (BinaryPerceptron_score
           (BinaryPerceptron_update (BinaryPerceptron_init ()) [''a'', ''b''] (PyBool True) 1)
           [''a'', ''b'']) = 2
   \<and> fst (BinaryPerceptron_score (BinaryPerceptron_init ()) [''a'', ''b'']) = 0
   \<and> fst (BinaryPerceptron_score
           (BinaryPerceptron_update (BinaryPerceptron_init ()) [''a'', ''b''] (PyBool False) 1)
           [''a'', ''b'']) = - 2"
proof -
  have d: "distinct [''a'', ''b'']" by simp
  have z: "fst (BinaryPerceptron_score (BinaryPerceptron_init ()) [''a'', ''b'']) = 0"
    by (simp add: BinaryPerceptron_score_def BinaryPerceptron_init_def defaultdict_getitem_def)
  from binary_update_changes_score [OF d, of "()" True]
    binary_update_changes_score [OF d, of "()" False] d z
  show ?thesis by simp
qed

text \<open>
  The averaged \<^verbatim>\<open>update\<close> rejects every label that is neither \<^verbatim>\<open>True\<close> nor
  \<^verbatim>\<open>False\<close> before it touches a weight.
\<close>

lemma BinaryAveragedPerceptron_update_rejects:
  "y \<noteq> PyBool True \<Longrightarrow> y \<noteq> PyBool False \<Longrightarrow>
     BinaryAveragedPerceptron_update m x y tau = (Inl ValueError, m)"
  by (simp add: BinaryAveragedPerceptron_update_def)

text \<open>
  Claim C5, at the label \<^verbatim>\<open>"N"\<close> on a fresh plain binary model with \<open>x = ["a"]\<close>.
  The claim says \<^verbatim>\<open>update\<close> fails with the store unchanged. The plain
  \<^verbatim>\<open>BinaryPerceptron.update\<close> has no check: it returns normally and has raised the
  weight of \<^verbatim>\<open>"a"\<close> to 1, as it does for \<^verbatim>\<open>True\<close>. The averaged sibling, on the same
  input, raises \<^verbatim>\<open>ValueError\<close> and leaves the model as it was.
\<close>

theorem plain_binary_update_accepts_non_boolean_label:
  "BinaryPerceptron_update (BinaryPerceptron_init g) [''a''] (PyStr ''N'') 1 =
     \<lparr>BinaryPerceptron.random = g, BinaryPerceptron.weights = [(''a'', 1)]\<rparr>
   \<and> BinaryPerceptron_update (BinaryPerceptron_init g) [''a''] (PyStr ''N'') 1 =
       BinaryPerceptron_update (BinaryPerceptron_init g) [''a''] (PyBool True) 1
   \<and> BinaryAveragedPerceptron_update (BinaryAveragedPerceptron_init g) [''a''] (PyStr ''N'') 1 =
       (Inl ValueError, BinaryAveragedPerceptron_init g)"
  by (simp add: BinaryPerceptron_update_def BinaryPerceptron_init_def defaultdict_iadd_def
      defaultdict_getitem_def BinaryAveragedPerceptron_update_def)

text \<open>
  The first loop of the averaged \<^verbatim>\<open>finalize\<close> collects no key, since
  \<^verbatim>\<open>weight == 0.\<close> is false of every \<^verbatim>\<open>LazyWeight\<close>: when it returns it has
  averaged every item, and whether it returns or raises the store keeps every key.
\<close>

lemma BinaryAveragedPerceptron_finalize_loop_averages:
  "BinaryAveragedPerceptron_finalize_loop truediv items t ready2die = (Inr r, w) \<Longrightarrow>
     r = ready2die
     \<and> w = map (\<lambda>(feature, lw). (feature, snd (LazyWeight_average truediv lw t))) items
     \<and> list_all (\<lambda>(feature, lw). fst (LazyWeight_average truediv lw t) = Inr ()) items"
  by (induction items arbitrary: ready2die w)
    (auto simp: LazyWeight_eq_float_def split: prod.splits sum.splits)

lemma BinaryAveragedPerceptron_finalize_loop_keys:
  "map fst (snd (BinaryAveragedPerceptron_finalize_loop truediv items t ready2die)) =
     map fst items"
proof (induction items arbitrary: ready2die)
  case Nil
  then show ?case by simp
next
  case (Cons a items)
  obtain f lw where a: "a = (f, lw)" by (cases a)
  from Cons.IH show ?case
    by (simp add: a LazyWeight_eq_float_def split_beta split: sum.splits)
qed

lemma BinaryAveragedPerceptron_finalize_keeps_keys:
  "map fst (BinaryPerceptron.weights (snd (BinaryAveragedPerceptron_finalize truediv m))) =
     map fst (BinaryPerceptron.weights m)"
proof -
  obtain r w where l: "BinaryAveragedPerceptron_finalize_loop truediv
      (BinaryPerceptron.weights m) (BinaryAveragedPerceptron.time m) [] = (r, w)"
    by (cases "BinaryAveragedPerceptron_finalize_loop truediv
      (BinaryPerceptron.weights m) (BinaryAveragedPerceptron.time m) []")
  from BinaryAveragedPerceptron_finalize_loop_keys[of truediv "BinaryPerceptron.weights m"
      "BinaryAveragedPerceptron.time m" "[]"] l
  have k: "map fst w = map fst (BinaryPerceptron.weights m)" by simp
  show ?thesis
  proof (cases r)
    case (Inl e)
    with l k show ?thesis by (simp add: BinaryAveragedPerceptron_finalize_def)
  next
    case (Inr rd)
    with BinaryAveragedPerceptron_finalize_loop_averages[of truediv _ _ "[]" rd w] l
    have "rd = []" by simp
    with Inr l k show ?thesis by (simp add: BinaryAveragedPerceptron_finalize_def)
  qed
qed

lemma BinaryAveragedPerceptron_finalize_loop_outcome:
  "t \<noteq> 0 \<Longrightarrow> raised_by_division truediv
     (fst (BinaryAveragedPerceptron_finalize_loop truediv items t ready2die))"
proof (induction items arbitrary: ready2die)
  case Nil
  then show ?case by (simp add: raised_by_division_def)
next
  case (Cons a items)
  obtain f lw where a: "a = (f, lw)" by (cases a)
  note avg = LazyWeight_average_outcome[OF Cons.prems, of truediv lw]
  note ih = Cons.IH[OF Cons.prems, of ready2die]
  obtain r lw1 where l: "LazyWeight_average truediv lw t = (r, lw1)"
    by (cases "LazyWeight_average truediv lw t")
  show ?case
  proof (cases r)
    case (Inl e)
    with avg l show ?thesis
      by (simp add: a LazyWeight_eq_float_def raised_by_division_def)
  next
    case (Inr u)
    with ih l show ?thesis
      by (simp add: a LazyWeight_eq_float_def split_beta)
  qed
qed

text \<open>
  The plain multiclass \<^verbatim>\<open>finalize\<close> does prune: no weight it keeps is 0.
\<close>

lemma Perceptron_finalize_no_zero:
  "(f, d) \<in> set (Perceptron.weights (Perceptron_finalize m)) \<Longrightarrow> (c, w) \<in> set d \<Longrightarrow> w \<noteq> 0"
  by (auto simp: Perceptron_finalize_def)

text \<open>
  Claim C1, at a training run of one instance, \<open>x = ["a"]\<close> with gold label
  \<^verbatim>\<open>True\<close>, on a fresh model. The prediction reads the weight of \<^verbatim>\<open>"a"\<close>, which
  stores a zero weight, and is right, so nothing is updated. The claim says no entry of
  value 0 survives \<^verbatim>\<open>finalize\<close>. In the binary averaged variant \<^verbatim>\<open>finalize\<close>
  returns and the entry of \<^verbatim>\<open>"a"\<close> is still there, its averaged value 0; in the plain
  binary variant \<^verbatim>\<open>finalize\<close> raises \<^verbatim>\<open>NameError\<close> and the store keeps the entry
  of value 0. The division is any that gives \<^verbatim>\<open>0 / 1\<close> the value 0, as Python's
  does.
\<close>

theorem finalize_keeps_zero_weight:
  assumes "truediv 0 1 = Inr 0"
  shows
  "fit_one_of_BinaryAveragedPerceptron (BinaryAveragedPerceptron_init g) [''a''] (PyBool True) =
     (Inr True,
      \<lparr>BinaryPerceptron.random = g,
       BinaryPerceptron.weights = [(''a'', \<lparr>timestamp = 0, weight = 0, summed_weight = 0\<rparr>)],
       BinaryAveragedPerceptron.time = 1\<rparr>)
   \<and> BinaryAveragedPerceptron_finalize truediv
       (snd (fit_one_of_BinaryAveragedPerceptron (BinaryAveragedPerceptron_init g) [''a'']
          (PyBool True))) =
     (Inr (),
      \<lparr>BinaryPerceptron.random = g,
       BinaryPerceptron.weights = [(''a'', \<lparr>timestamp = 1, weight = 0, summed_weight = 0\<rparr>)],
       BinaryAveragedPerceptron.time = 1\<rparr>)
   \<and> fit_one_of_BinaryPerceptron (BinaryPerceptron_init g) [''a''] (PyBool True) =
     (Inr True, \<lparr>BinaryPerceptron.random = g, BinaryPerceptron.weights = [(''a'', 0)]\<rparr>)
   \<and> BinaryPerceptron_finalize
       (snd (fit_one_of_BinaryPerceptron (BinaryPerceptron_init g) [''a''] (PyBool True))) =
     (Inl NameError,
      \<lparr>BinaryPerceptron.random = g, BinaryPerceptron.weights = [(''a'', 0)]\<rparr>)"
  using assms
  by (simp add: fit_one_of_BinaryAveragedPerceptron_def BinaryPerceptron_fit_one_def
      BinaryAveragedPerceptron_predict_def BinaryAveragedPerceptron_init_def
      defaultdict_getitem_def LazyWeight_init_def LazyWeight_get_def
      BinaryAveragedPerceptron_finalize_def LazyWeight_eq_float_def LazyWeight_average_def
      LazyWeight_freshen_def fit_one_of_BinaryPerceptron_def BinaryPerceptron_predict_def
      BinaryPerceptron_score_def BinaryPerceptron_init_def BinaryPerceptron_finalize_def)

theorem finalize_keeps_zero_weight_witness:
  "exact_truediv 0 1 = Inr 0
   \<and> BinaryAveragedPerceptron_finalize exact_truediv
       (snd (fit_one_of_BinaryAveragedPerceptron (BinaryAveragedPerceptron_init ()) [''a'']
          (PyBool True))) =
     (Inr (),
      \<lparr>BinaryPerceptron.random = (),
       BinaryPerceptron.weights = [(''a'', \<lparr>timestamp = 1, weight = 0, summed_weight = 0\<rparr>)],
       BinaryAveragedPerceptron.time = 1\<rparr>)
   \<and> BinaryPerceptron_finalize
       (snd (fit_one_of_BinaryPerceptron (BinaryPerceptron_init ()) [''a''] (PyBool True))) =
     (Inl NameError,
      \<lparr>BinaryPerceptron.random = (), BinaryPerceptron.weights = [(''a'', 0::int)]\<rparr>)"
proof -
  have d: "exact_truediv 0 1 = Inr 0"
    by (simp add: exact_truediv_def)
  from finalize_keeps_zero_weight [where truediv = exact_truediv and g = "()", OF d] d
  show ?thesis
    by blast
qed

subsection \<open>The multiclass perceptron\<close>

lemma getitem_items:
  "defaultdict_getitem [] ws f = (items, ws1) \<Longrightarrow> items = items_of ws f \<and> items_of ws1 = items_of ws
     \<and> map_of ws1 f = Some items"
  by (auto simp: defaultdict_getitem_def items_of_def fun_eq_iff map_add_def
      split: option.splits if_splits)

lemma scores_loop_pure:
  "fst (scores_loop get ws z sc) = scores_pure get (items_of ws) z sc"
proof (induction z arbitrary: ws sc)
  case Nil
  then show ?case by simp
next
  case (Cons f z)
  obtain items ws1 where g: "defaultdict_getitem [] ws f = (items, ws1)"
    by (cases "defaultdict_getitem [] ws f")
  from getitem_items[OF g] show ?case
    by (simp add: g Cons.IH split: sum.splits)
qed

lemma map_of_Some_key: "map_of d k = Some v \<Longrightarrow> k \<in> fst ` set d"
  by (metis map_of_eq_None_iff option.distinct(1))

lemma dict_iadd_keys: "dict_iadd k w d = Inr d1 \<Longrightarrow> map fst d1 = map fst d"
  by (auto simp: dict_iadd_def update_keys split: option.splits dest: map_of_Some_key)

lemma scores_items_keys: "scores_items get items sc = Inr sc1 \<Longrightarrow> map fst sc1 = map fst sc"
proof (induction items arbitrary: sc)
  case Nil
  then show ?case by simp
next
  case (Cons p items)
  obtain c w where p: "p = (c, w)" by (cases p)
  from Cons.prems obtain sc' where a: "dict_iadd c (get w) sc = Inr sc'" and b: "scores_items get items sc' = Inr sc1"
    by (auto simp: p split: sum.splits)
  from Cons.IH[OF b] dict_iadd_keys[OF a] show ?case by simp
qed

lemma scores_items_append:
  "scores_items get (d @ e) sc =
     (case scores_items get d sc of Inl err \<Rightarrow> Inl err | Inr sc1 \<Rightarrow> scores_items get e sc1)"
  by (induction d arbitrary: sc) (auto split: sum.splits)

lemma dict_iadd_zero:
  "y \<in> fst ` set sc \<Longrightarrow> dict_iadd y (0::int) sc = Inr sc"
  by (auto simp: dict_iadd_def update_triv split: option.splits simp: map_of_eq_None_iff)

lemma scores_items_touched:
  assumes "y \<in> fst ` set sc"
  shows "scores_items (\<lambda>w. w) (touched y d) sc = scores_items (\<lambda>w. w) d sc"
proof (cases "y \<in> fst ` set d")
  case True
  then show ?thesis by (simp add: touched_def)
next
  case False
  show ?thesis
  proof (cases "scores_items (\<lambda>w. w) d sc")
    case (Inl e)
    then show ?thesis using False by (simp add: touched_def scores_items_append)
  next
    case (Inr sc1)
    from scores_items_keys[OF Inr] assms have "y \<in> fst ` set sc1"
      by (metis set_map)
    then show ?thesis using False Inr by (simp add: touched_def scores_items_append dict_iadd_zero)
  qed
qed

lemma iadd_cancel:
  "defaultdict_iadd y (- tau) (defaultdict_iadd y tau d) = touched y d"
proof (cases "map_of d y")
  case None
  then have n: "y \<notin> fst ` set d" by (simp add: map_of_eq_None_iff)
  have u: "\<And>v v0. AList.update y v (d @ [(y, v0)]) = d @ [(y, v)]"
    using n by (induction d) auto
  show ?thesis using None n
    by (simp add: defaultdict_iadd_def defaultdict_getitem_def touched_def u map_add_def)
next
  case (Some v)
  then have i: "y \<in> fst ` set d" by (rule map_of_Some_key)
  show ?thesis using Some i
    by (simp add: defaultdict_iadd_def defaultdict_getitem_def touched_def update_conv' update_last update_triv)
qed

lemma touched_idem: "touched y (touched y d) = touched y d"
  by (auto simp: touched_def)

lemma items_of_update: "items_of (AList.update f p ws) g = (if g = f then p else items_of ws g)"
  by (simp add: items_of_def update_conv')

lemma items_of_update_loop:
  "items_of (Perceptron_update_loop ws x y y tau) f =
     (if f \<in> set x then touched y (items_of ws f) else items_of ws f)"
proof (induction x arbitrary: ws)
  case Nil
  then show ?case by simp
next
  case (Cons a x)
  obtain fp ws1 where g: "defaultdict_getitem [] ws a = (fp, ws1)"
    by (cases "defaultdict_getitem [] ws a")
  from getitem_items[OF g] show ?case
    by (simp add: g Cons.IH iadd_cancel items_of_update touched_idem)
qed

lemma scores_pure_touched:
  assumes "y \<in> fst ` set sc" "\<And>f. I' f = I f \<or> I' f = touched y (I f)"
  shows "scores_pure (\<lambda>w. w) I' z sc = scores_pure (\<lambda>w. w) I z sc"
  using assms(1)
proof (induction z arbitrary: sc)
  case Nil
  then show ?case by simp
next
  case (Cons f z)
  have e: "scores_items (\<lambda>w. w) (I' f) sc = scores_items (\<lambda>w. w) (I f) sc"
    using assms(2)[of f] scores_items_touched[OF Cons.prems] by auto
  show ?case
  proof (cases "scores_items (\<lambda>w. w) (I f) sc")
    case (Inl err)
    then show ?thesis by (simp add: e)
  next
    case (Inr sc1)
    from scores_items_keys[OF Inr] Cons.prems have "y \<in> fst ` set sc1" by (metis set_map)
    from Cons.IH[OF this] show ?thesis by (simp add: e Inr)
  qed
qed

lemma set_iter_set: "set (set_iter rank s) = set s"
  by (simp add: set_iter_def)

text \<open>
  Claim C10, as stated, at a class the model has not registered: a fresh model (its
  only class the default \<^verbatim>\<open>None\<close>), \<open>x = z = ["f"]\<close>, \<open>y = "N"\<close>. Before the
  update \<^verbatim>\<open>scores(["f"])\<close> returns \<^verbatim>\<open>{None: 0}\<close>. \<^verbatim>\<open>update(x, "N", "N")\<close> leaves
  the entry \<^verbatim>\<open>"N": 0\<close> in the weights of \<^verbatim>\<open>"f"\<close>, and \<^verbatim>\<open>scores(["f"])\<close> then
  raises \<^verbatim>\<open>KeyError\<close> at \<^verbatim>\<open>scores["N"] += 0\<close>.
\<close>

theorem update_unregistered_class_counterexample:
  "fst (Perceptron_scores (\<lambda>s c. 0) (Perceptron_init PyNone ()) [''f'']) = Inr [(PyNone, 0)]
   \<and> fst (Perceptron_scores (\<lambda>s c. 0)
           (Perceptron_update (Perceptron_init PyNone ()) [''f''] (PyStr ''N'') (PyStr ''N'') 1)
           [''f'']) = Inl KeyError"
  by (simp add: Perceptron_scores_def Perceptron_init_def defaultdict_getitem_def
      dict_fromkeys_def set_iter_def Perceptron_update_def defaultdict_iadd_def dict_iadd_def)

text \<open>
  Claim C10, amended. For every feature list \<open>x\<close>, every model state and every class
  \<open>y\<close> registered in the classes of the model, \<^verbatim>\<open>update(x, y, y)\<close> (with any
  \<^verbatim>\<open>tau\<close>) leaves the outcome of \<^verbatim>\<open>scores(z)\<close> unchanged for every feature list
  \<open>z\<close>: the same scores, in the same order, or the same exception.
\<close>

theorem update_same_class_keeps_scores:
  assumes "y \<in> set (classes m)"
  shows "fst (Perceptron_scores rank (Perceptron_update m x y y tau) z) =
         fst (Perceptron_scores rank m z)"
proof -
  have k: "y \<in> fst ` set (dict_fromkeys (set_iter rank (classes m)) (0::int))"
    using assms by (simp add: dict_fromkeys_def set_iter_set image_image)
  show ?thesis
    by (simp add: Perceptron_scores_def Perceptron_update_def split_beta scores_loop_pure
        scores_pure_touched[OF k] items_of_update_loop)
qed


theorem update_same_class_keeps_scores_witness:
  "PyStr ''N'' \<in> set (Perceptron.classes (Perceptron_init (PyStr ''N'') ()))
   \<and> fst (Perceptron_scores (\<lambda>s c. 0)
           (Perceptron_update (Perceptron_init (PyStr ''N'') ()) [''f''] (PyStr ''N'') (PyStr ''N'') 1)
           [''f'']) = Inr [(PyStr ''N'', 0)]
   \<and> fst (Perceptron_scores (\<lambda>s c. 0) (Perceptron_init (PyStr ''N'') ()) [''f'']) =
       Inr [(PyStr ''N'', 0)]"
proof -
  have c: "PyStr ''N'' \<in> set (Perceptron.classes (Perceptron_init (PyStr ''N'') ()))"
    by (simp add: Perceptron_init_def)
  have b: "fst (Perceptron_scores (\<lambda>s c. 0) (Perceptron_init (PyStr ''N'') ()) [''f'']) =
       Inr [(PyStr ''N'', 0)]"
    by (simp add: Perceptron_scores_def Perceptron_init_def defaultdict_getitem_def
        dict_fromkeys_def set_iter_def)
  from update_same_class_keeps_scores [OF c, of "\<lambda>s c. 0" "[''f'']" 1 "[''f'']"] b c
  show ?thesis by simp
qed

text \<open>
  Claim C6, as stated: on a fresh model (classes \<^verbatim>\<open>{None}\<close>), after
  \<^verbatim>\<open>update(["f1"], "N", "V")\<close> the store holds \<^verbatim>\<open>"N": 1\<close> and \<^verbatim>\<open>"V": -1\<close> for
  \<^verbatim>\<open>"f1"\<close>, and \<^verbatim>\<open>scores(["f1"])\<close> raises \<^verbatim>\<open>KeyError\<close> at
  \<^verbatim>\<open>scores["N"] += 1\<close>: \<^verbatim>\<open>update\<close> registers no class, and \<^verbatim>\<open>scores\<close> has a
  key for the registered classes only.
\<close>

theorem scores_on_fresh_model_counterexample:
  "Perceptron_update (Perceptron_init PyNone ()) [''f1''] (PyStr ''N'') (PyStr ''V'') 1 =
     \<lparr>Perceptron.classes = [PyNone], Perceptron.random = (),
      Perceptron.weights = [(''f1'', [(PyStr ''N'', 1), (PyStr ''V'', - 1)])]\<rparr>
   \<and> fst (Perceptron_scores (\<lambda>s c. 0)
           (Perceptron_update (Perceptron_init PyNone ()) [''f1''] (PyStr ''N'') (PyStr ''V'') 1)
           [''f1'']) = Inl KeyError"
  by (simp add: Perceptron_scores_def Perceptron_init_def defaultdict_getitem_def
      dict_fromkeys_def set_iter_def Perceptron_update_def defaultdict_iadd_def dict_iadd_def)

text \<open>
  Claim C6, amended. On a multiclass model with no weights whose classes are exactly
  \<^verbatim>\<open>"N"\<close> and \<^verbatim>\<open>"V"\<close> (added in either order, iterated in any order), after the
  single \<^verbatim>\<open>update(x, "N", "V")\<close> with \<open>x = ["f1"]\<close>, \<^verbatim>\<open>scores(x)\<close> returns the
  mapping with exactly the keys \<^verbatim>\<open>"N"\<close>, of value 1, and \<^verbatim>\<open>"V"\<close>, of value -1.
\<close>

theorem scores_after_update_with_registered_classes:
  "(\<exists>sc. fst (Perceptron_scores rank
              (Perceptron_update
                 \<lparr>Perceptron.classes = [PyStr ''N'', PyStr ''V''], Perceptron.random = g,
                  Perceptron.weights = []\<rparr>
                 [''f1''] (PyStr ''N'') (PyStr ''V'') 1)
              [''f1'']) = Inr sc
         \<and> map_of sc = [PyStr ''N'' \<mapsto> 1, PyStr ''V'' \<mapsto> - 1])
   \<and> (\<exists>sc. fst (Perceptron_scores rank
              (Perceptron_update
                 \<lparr>Perceptron.classes = [PyStr ''V'', PyStr ''N''], Perceptron.random = g,
                  Perceptron.weights = []\<rparr>
                 [''f1''] (PyStr ''N'') (PyStr ''V'') 1)
              [''f1'']) = Inr sc
         \<and> map_of sc = [PyStr ''N'' \<mapsto> 1, PyStr ''V'' \<mapsto> - 1])"
  by (auto simp: Perceptron_scores_def defaultdict_getitem_def
      dict_fromkeys_def set_iter_def Perceptron_update_def defaultdict_iadd_def dict_iadd_def fun_eq_iff)

subsection \<open>Sequence decoding\<close>

text \<open>
  \<^verbatim>\<open>predict\<close> returns the empty list on the empty sequence, whatever the order;
  with a positive order, on a non-empty sequence, it raises \<^verbatim>\<open>NameError\<close>.
\<close>

lemma predict_empty_sequence:
  "SequencePerceptron_predict scores m [] = (Inr [], m)"
  by (simp add: SequencePerceptron_predict_def SequencePerceptron_greedy_predict_def)

lemma greedy_predict_NameError:
  "0 < SequencePerceptron.order m \<Longrightarrow> SequencePerceptron_predict scores m (x # xx) = (Inl NameError, m)"
  by (simp add: SequencePerceptron_predict_def SequencePerceptron_greedy_predict_def
      sequence_binding_def)

text \<open>
  Claim C4, at the one-token sequence \<open>[["a"]]\<close> on a fresh model of order 1 whose
  transition function returns no feature. The claim says greedy decoding gives the
  labels of order-0 decoding. Greedy decoding raises \<^verbatim>\<open>NameError\<close> at the first
  token, where it reads the unbound name \<^verbatim>\<open>sequence\<close>; order-0 decoding of the
  same tokens returns \<^verbatim>\<open>[None]\<close>.
\<close>

theorem greedy_decoding_raises_NameError:
  "predict_of_SequencePerceptron rank (SequencePerceptron_init (\<lambda>w. []) 1 PyNone g) [[''a'']] =
     (Inl NameError, SequencePerceptron_init (\<lambda>w. []) 1 PyNone g)
   \<and> fst (markov0_predict_of_SequencePerceptron rank
           (SequencePerceptron_init (\<lambda>w. []) 1 PyNone g) [[''a'']]) = Inr [PyNone]"
  by (simp add: predict_of_SequencePerceptron_def SequencePerceptron_predict_def
      SequencePerceptron_greedy_predict_def sequence_binding_def SequencePerceptron_init_def
      markov0_predict_of_SequencePerceptron_def Perceptron_scores_def defaultdict_getitem_def
      dict_fromkeys_def set_iter_def)

subsection \<open>Logical time\<close>

lemma fit_instances_counts:
  assumes step: "\<And>m x y. Inv m \<Longrightarrow> (x, y) \<in> A \<Longrightarrow>
      \<exists>r m'. fit_one m x y = (Inr r, m') \<and> Inv m' \<and> tm m' = tm m + 1"
  shows "Inv m \<Longrightarrow> set data \<subseteq> A \<Longrightarrow>
      \<exists>m'. fit_instances fit_one m data = (Inr (), m') \<and> Inv m' \<and> tm m' = tm m + int (length data)"
proof (induction data arbitrary: m)
  case Nil
  then show ?case by simp
next
  case (Cons p data)
  obtain x y where p: "p = (x, y)" by (cases p)
  from Cons.prems p have "(x, y) \<in> A" by simp
  from step[OF Cons.prems(1) this] obtain r m1 where
    s: "fit_one m x y = (Inr r, m1)" "Inv m1" "tm m1 = tm m + 1" by blast
  from Cons.prems have "set data \<subseteq> A" by simp
  from Cons.IH[OF s(2) this] obtain m' where
    "fit_instances fit_one m1 data = (Inr (), m')" "Inv m'" "tm m' = tm m1 + int (length data)"
    by blast
  then show ?case using s by (simp add: p)
qed

lemma fit_epochs_counts:
  assumes step: "\<And>m x y. Inv m \<Longrightarrow> (x, y) \<in> A \<Longrightarrow>
      \<exists>r m'. fit_one m x y = (Inr r, m') \<and> Inv m' \<and> tm m' = tm m + 1"
    and sh: "\<And>m data. Inv m \<Longrightarrow> Inv (snd (shuffle m data)) \<and> tm (snd (shuffle m data)) = tm m
      \<and> mset (fst (shuffle m data)) = mset data"
  shows "Inv m \<Longrightarrow> set data \<subseteq> A \<Longrightarrow>
      \<exists>m'. fit_epochs shuffle fit_one n m data = (Inr (), m') \<and> Inv m'
        \<and> tm m' = tm m + int (n * length data)"
proof (induction n arbitrary: m data)
  case 0
  then show ?case by simp
next
  case (Suc n)
  obtain data1 m1 where s: "shuffle m data = (data1, m1)" by (cases "shuffle m data")
  from sh[OF Suc.prems(1), of data] s have
    m1: "Inv m1" "tm m1 = tm m" and d1: "mset data1 = mset data" by auto
  from d1 have sd: "set data1 = set data" and ld: "length data1 = length data"
    by (auto dest: mset_eq_setD mset_eq_length)
  from Suc.prems(2) sd have a1: "set data1 \<subseteq> A" by simp
  from fit_instances_counts[of Inv A fit_one tm, OF step m1(1) a1] obtain m2 where
    i: "fit_instances fit_one m1 data1 = (Inr (), m2)" "Inv m2" "tm m2 = tm m1 + int (length data1)"
    by blast
  from Suc.IH[OF i(2) a1] obtain m' where
    e: "fit_epochs shuffle fit_one n m2 data1 = (Inr (), m')" "Inv m'"
       "tm m' = tm m2 + int (n * length data1)" by blast
  show ?case using s i e m1 ld by (simp add: algebra_simps)
qed


paragraph \<open>The binary averaged perceptron\<close>

lemma BAP_predict_time:
  "BinaryAveragedPerceptron.time (snd (BinaryAveragedPerceptron_predict m x)) =
     BinaryAveragedPerceptron.time m"
  by (simp add: BinaryAveragedPerceptron_predict_def split_beta)

lemma BAP_update_time:
  "BinaryAveragedPerceptron.time (snd (BinaryAveragedPerceptron_update m x y tau)) =
     BinaryAveragedPerceptron.time m"
  by (simp add: BinaryAveragedPerceptron_update_def)

lemma BAP_update_bool:
  "BinaryAveragedPerceptron_update m x (PyBool b) tau =
     (Inr (), m\<lparr>BinaryPerceptron.weights :=
        BinaryAveragedPerceptron_update_loop (BinaryPerceptron.weights m) x
          (if b then tau else tau * (- 1)) (BinaryAveragedPerceptron.time m)\<rparr>)"
  by (simp add: BinaryAveragedPerceptron_update_def)

lemma BAP_fit_one_time:
  "BinaryAveragedPerceptron.time (snd (fit_one_of_BinaryAveragedPerceptron m x y)) =
     BinaryAveragedPerceptron.time m
     + (case fst (fit_one_of_BinaryAveragedPerceptron m x y) of Inl e \<Rightarrow> 0 | Inr r \<Rightarrow> 1)"
proof -
  obtain yhat m1 where p: "BinaryAveragedPerceptron_predict m x = (yhat, m1)"
    by (cases "BinaryAveragedPerceptron_predict m x")
  from BAP_predict_time[of m x] p have t1: "BinaryAveragedPerceptron.time m1 = BinaryAveragedPerceptron.time m"
    by simp
  obtain r m2 where u: "BinaryAveragedPerceptron_update m1 x y 1 = (r, m2)"
    by (cases "BinaryAveragedPerceptron_update m1 x y 1")
  from BAP_update_time[of m1 x y 1] u have t2: "BinaryAveragedPerceptron.time m2 = BinaryAveragedPerceptron.time m1"
    by simp
  show ?thesis
    by (simp add: fit_one_of_BinaryAveragedPerceptron_def BinaryPerceptron_fit_one_def p u t1 t2
        split: sum.splits)
qed

lemma BAP_fit_one_bool:
  "\<exists>yhat. fst (fit_one_of_BinaryAveragedPerceptron m x (PyBool b)) = Inr yhat"
  by (simp add: fit_one_of_BinaryAveragedPerceptron_def BinaryPerceptron_fit_one_def
      BAP_update_bool split_beta)

lemma BAP_finalize_time:
  "BinaryAveragedPerceptron.time (snd (BinaryAveragedPerceptron_finalize truediv m)) =
     BinaryAveragedPerceptron.time m"
  by (simp add: BinaryAveragedPerceptron_finalize_def split: prod.splits sum.splits)

lemma BAP_finalize_ok:
  assumes "BinaryAveragedPerceptron.time m \<noteq> 0 \<or> BinaryPerceptron.weights m = []"
  shows "raised_by_division truediv (fst (BinaryAveragedPerceptron_finalize truediv m))
     \<and> BinaryAveragedPerceptron.time (snd (BinaryAveragedPerceptron_finalize truediv m)) =
         BinaryAveragedPerceptron.time m"
proof (cases "BinaryPerceptron.weights m = []")
  case True
  then show ?thesis
    by (simp add: BinaryAveragedPerceptron_finalize_def raised_by_division_def)
next
  case False
  with assms have t: "BinaryAveragedPerceptron.time m \<noteq> 0" by simp
  obtain r w where l: "BinaryAveragedPerceptron_finalize_loop truediv
      (BinaryPerceptron.weights m) (BinaryAveragedPerceptron.time m) [] = (r, w)"
    by (cases "BinaryAveragedPerceptron_finalize_loop truediv
      (BinaryPerceptron.weights m) (BinaryAveragedPerceptron.time m) []")
  from BinaryAveragedPerceptron_finalize_loop_outcome[OF t, of truediv
      "BinaryPerceptron.weights m" "[]"] l
  have "raised_by_division truediv (fst (BinaryAveragedPerceptron_finalize truediv m))"
    by (cases r) (simp_all add: BinaryAveragedPerceptron_finalize_def raised_by_division_def)
  then show ?thesis by (simp add: BAP_finalize_time)
qed

lemma BAP_fit_counts:
  fixes shuffle :: "'g \<Rightarrow> (feature list \<times> label) list \<Rightarrow> (feature list \<times> label) list \<times> 'g"
  assumes "permutes shuffle"
  shows "raised_by_division truediv
           (fst (fit_of_BinaryAveragedPerceptron truediv shuffle (BinaryAveragedPerceptron_init g)
                   X (map PyBool B) epochs))
    \<and> BinaryAveragedPerceptron.time
        (snd (fit_of_BinaryAveragedPerceptron truediv shuffle (BinaryAveragedPerceptron_init g) X
               (map PyBool B) epochs)) = int (nat epochs * length (zip X B))"
proof -
  let ?sh = "\<lambda>m data. case shuffle (BinaryPerceptron.random m) data of
                    (data1, g1) \<Rightarrow> (data1, m\<lparr>BinaryPerceptron.random := g1\<rparr>)"
  let ?A = "{(x, y). \<exists>b. y = PyBool b}"
  have step: "\<And>(m::('g, LazyWeight) BinaryAveragedPerceptron) x y. BAP_inv m \<Longrightarrow> (x, y) \<in> ?A \<Longrightarrow>
      \<exists>r m'. fit_one_of_BinaryAveragedPerceptron m x y = (Inr r, m') \<and> BAP_inv m'
        \<and> BinaryAveragedPerceptron.time m' = BinaryAveragedPerceptron.time m + 1"
  proof -
    fix m :: "('g, LazyWeight) BinaryAveragedPerceptron" and x :: "feature list" and y
    assume i: "BAP_inv m" and "(x, y) \<in> ?A"
    then obtain b where y: "y = PyBool b" by auto
    from BAP_fit_one_bool[of m x b] obtain yhat where
      f: "fst (fit_one_of_BinaryAveragedPerceptron m x y) = Inr yhat" by (auto simp: y)
    with BAP_fit_one_time[of m x y] have
      t: "BinaryAveragedPerceptron.time (snd (fit_one_of_BinaryAveragedPerceptron m x y)) =
        BinaryAveragedPerceptron.time m + 1" by simp
    with i have "BAP_inv (snd (fit_one_of_BinaryAveragedPerceptron m x y))"
      by (simp add: BAP_inv_def)
    with f t show "\<exists>r m'. fit_one_of_BinaryAveragedPerceptron m x y = (Inr r, m') \<and> BAP_inv m'
        \<and> BinaryAveragedPerceptron.time m' = BinaryAveragedPerceptron.time m + 1"
      by (metis prod.collapse)
  qed
  have sh: "\<And>m data. BAP_inv m \<Longrightarrow> BAP_inv (snd (?sh m data))
      \<and> BinaryAveragedPerceptron.time (snd (?sh m data)) = BinaryAveragedPerceptron.time m
      \<and> mset (fst (?sh m data)) = mset data"
    using assms by (auto simp: permutes_def BAP_inv_def split_beta)
  have i0: "BAP_inv (BinaryAveragedPerceptron_init g)"
    by (simp add: BAP_inv_def BinaryAveragedPerceptron_init_def)
  have a0: "set (zip X (map PyBool B)) \<subseteq> ?A"
    by (auto simp: in_set_zip)
  from fit_epochs_counts[of BAP_inv ?A fit_one_of_BinaryAveragedPerceptron
      BinaryAveragedPerceptron.time ?sh, OF step sh i0 a0, of "nat epochs"]
  obtain m' where e: "fit_epochs ?sh fit_one_of_BinaryAveragedPerceptron (nat epochs)
        (BinaryAveragedPerceptron_init g) (zip X (map PyBool B)) = (Inr (), m')"
      "BAP_inv m'"
      "BinaryAveragedPerceptron.time m' = BinaryAveragedPerceptron.time (BinaryAveragedPerceptron_init g)
          + int (nat epochs * length (zip X (map PyBool B)))"
    by blast
  from e(2) have "BinaryAveragedPerceptron.time m' \<noteq> 0 \<or> BinaryPerceptron.weights m' = []"
    by (simp add: BAP_inv_def)
  from BAP_finalize_ok[OF this, of truediv] e(1,3) show ?thesis
    by (simp add: fit_of_BinaryAveragedPerceptron_def Classifier_fit_def
        BinaryAveragedPerceptron_init_def)
qed


paragraph \<open>The multiclass averaged perceptron\<close>

lemma dict_iadd_total:
  "k \<in> fst ` set sc \<Longrightarrow> \<exists>sc'. dict_iadd k w sc = Inr sc' \<and> map fst sc' = map fst sc"
  by (cases "map_of sc k") (auto simp: dict_iadd_def update_keys map_of_eq_None_iff)

lemma scores_items_total:
  "fst ` set items \<subseteq> fst ` set sc \<Longrightarrow>
     \<exists>sc'. scores_items get items sc = Inr sc' \<and> map fst sc' = map fst sc"
proof (induction items arbitrary: sc)
  case Nil
  then show ?case by simp
next
  case (Cons p items)
  obtain c w where p: "p = (c, w)" by (cases p)
  from Cons.prems p have "c \<in> fst ` set sc" by auto
  from dict_iadd_total[OF this, of "get w"] obtain sc1 where
    a: "dict_iadd c (get w) sc = Inr sc1" "map fst sc1 = map fst sc" by blast
  from a(2) have "fst ` set sc1 = fst ` set sc" by (metis set_map)
  with Cons.prems have "fst ` set items \<subseteq> fst ` set sc1" by auto
  from Cons.IH[OF this] a show ?case by (auto simp: p)
qed

lemma scores_pure_total:
  "(\<And>f. fst ` set (I f) \<subseteq> fst ` set sc) \<Longrightarrow>
     \<exists>sc'. scores_pure get I z sc = Inr sc' \<and> map fst sc' = map fst sc"
proof (induction z arbitrary: sc)
  case Nil
  then show ?case by simp
next
  case (Cons f z)
  from scores_items_total[OF Cons.prems[of f], of get] obtain sc1 where
    a: "scores_items get (I f) sc = Inr sc1" "map fst sc1 = map fst sc" by blast
  from a(2) have "fst ` set sc1 = fst ` set sc" by (metis set_map)
  with Cons.prems have "\<And>f. fst ` set (I f) \<subseteq> fst ` set sc1" by auto
  from Cons.IH[OF this] a show ?case by auto
qed

lemma items_of_scores_loop: "items_of (snd (scores_loop get ws z sc)) = items_of ws"
proof (induction z arbitrary: ws sc)
  case Nil
  then show ?case by simp
next
  case (Cons f z)
  obtain items ws1 where g: "defaultdict_getitem [] ws f = (items, ws1)"
    by (cases "defaultdict_getitem [] ws f")
  from getitem_items[OF g] show ?case
    by (simp add: g Cons.IH split: sum.splits)
qed

lemma keys_fromkeys: "map fst (dict_fromkeys ks v) = ks"
  by (simp add: dict_fromkeys_def comp_def)

lemma AveragedPerceptron_scores_total:
  assumes "registered (set (classes m)) (weights m)"
  shows "\<exists>sc. fst (AveragedPerceptron_scores rank m x) = Inr sc
           \<and> map fst sc = set_iter rank (classes m)"
proof -
  let ?sc0 = "dict_fromkeys (set_iter rank (classes m)) (0::rat)"
  have "\<And>f. fst ` set (items_of (weights m) f) \<subseteq> fst ` set ?sc0"
    using assms by (simp add: registered_def dict_fromkeys_def image_image set_iter_set)
  from scores_pure_total[of "items_of (weights m)" ?sc0 LazyWeight_get x, OF this] show ?thesis
    by (auto simp: AveragedPerceptron_scores_def split_beta scores_loop_pure keys_fromkeys)
qed

lemma AveragedPerceptron_scores_state:
  "classes (snd (AveragedPerceptron_scores rank m x)) = classes m
   \<and> items_of (weights (snd (AveragedPerceptron_scores rank m x))) = items_of (weights m)
   \<and> Perceptron.more (snd (AveragedPerceptron_scores rank m x)) = Perceptron.more m"
  by (simp add: AveragedPerceptron_scores_def split_beta items_of_scores_loop)

lemma foldl_max_mem:
  "foldl (\<lambda>best q. if snd best < snd q then q else best) p ps \<in> set (p # ps)"
  by (induction ps arbitrary: p) (auto split: if_splits)

lemma py_max_by_value_total:
  assumes "sc \<noteq> []"
  shows "\<exists>k v. py_max_by_value sc = Inr (k, v) \<and> k \<in> fst ` set sc"
proof -
  from assms obtain p ps where c: "sc = p # ps" by (cases sc) auto
  obtain k v where kv: "foldl (\<lambda>best q. if snd best < snd q then q else best) p ps = (k, v)"
    by (cases "foldl (\<lambda>best q. if snd best < snd q then q else best) p ps")
  from foldl_max_mem[of p ps] kv have "(k, v) \<in> set sc" by (simp add: c)
  then have "k \<in> fst ` set sc" by force
  with kv show ?thesis by (simp add: c)
qed


lemma Perceptron_predict_state: "snd (Perceptron_predict scores m x) = snd (scores m x)"
  by (simp add: Perceptron_predict_def split: prod.splits sum.splits)

lemma AveragedPerceptron_scores_time:
  "AveragedPerceptron.time (snd (AveragedPerceptron_scores rank m x)) = AveragedPerceptron.time m"
  by (simp add: AveragedPerceptron_scores_def split_beta)

lemma AveragedPerceptron_predict_total:
  assumes "registered (set (classes m)) (weights m)" "classes m \<noteq> []"
  shows "\<exists>yhat. fst (Perceptron_predict (AveragedPerceptron_scores rank) m x) = Inr yhat
           \<and> yhat \<in> set (classes m)"
proof -
  from AveragedPerceptron_scores_total[OF assms(1), of rank x] obtain sc where
    sc: "fst (AveragedPerceptron_scores rank m x) = Inr sc" "map fst sc = set_iter rank (classes m)"
    by blast
  from sc(2) assms(2) have ne: "sc \<noteq> []"
    by (metis list.map_disc_iff set_empty set_iter_set)
  from py_max_by_value_total[OF ne] obtain k v where
    kv: "py_max_by_value sc = Inr (k, v)" "k \<in> fst ` set sc" by blast
  from kv(2) sc(2) have "k \<in> set (classes m)"
    by (metis set_map set_iter_set)
  with sc(1) kv(1) show ?thesis
    by (cases "AveragedPerceptron_scores rank m x") (simp add: Perceptron_predict_def)
qed

lemma lazy_update_keys:
  "fst ` set (defaultdict_lazy_update k tau t d) = insert k (fst ` set d)"
  by (cases "map_of d k")
    (auto simp: defaultdict_lazy_update_def defaultdict_getitem_def dom_update
      dest: map_of_Some_key)

lemma AveragedPerceptron_update_loop_registered:
  "registered C ws \<Longrightarrow> y \<in> C \<Longrightarrow> yhat \<in> C \<Longrightarrow>
     registered C (AveragedPerceptron_update_loop ws x y yhat tau t)"
proof (induction x arbitrary: ws)
  case Nil
  then show ?case by simp
next
  case (Cons f x)
  obtain fp ws1 where g: "defaultdict_getitem [] ws f = (fp, ws1)"
    by (cases "defaultdict_getitem [] ws f")
  let ?p = "defaultdict_lazy_update yhat (- tau) t (defaultdict_lazy_update y tau t fp)"
  from getitem_items[OF g] have fp: "fp = items_of ws f" "items_of ws1 = items_of ws" by auto
  from Cons.prems fp have "fst ` set ?p \<subseteq> C"
    by (auto simp: lazy_update_keys registered_def)
  with Cons.prems(1) fp have "registered C (AList.update f ?p ws1)"
    by (simp add: registered_def items_of_update)
  from Cons.IH[OF this Cons.prems(2,3)] show ?case by (simp add: g)
qed

lemma registered_mono: "registered C ws \<Longrightarrow> C \<subseteq> D \<Longrightarrow> registered D ws"
  by (auto simp: registered_def)

lemma set_add_set: "set (set_add y s) = insert y (set s)"
  by (auto simp: set_add_def)

lemma AP_fit_one_time:
  "AveragedPerceptron.time (snd (fit_one_of_AveragedPerceptron rank m x y)) =
     AveragedPerceptron.time m
     + (case fst (fit_one_of_AveragedPerceptron rank m x y) of Inl e \<Rightarrow> 0 | Inr r \<Rightarrow> 1)"
proof -
  let ?m0 = "m\<lparr>classes := set_add y (classes m)\<rparr>"
  obtain r m1 where p: "Perceptron_predict (AveragedPerceptron_scores rank) ?m0 x = (r, m1)"
    by (cases "Perceptron_predict (AveragedPerceptron_scores rank) ?m0 x")
  from Perceptron_predict_state[of "AveragedPerceptron_scores rank" ?m0 x] p
  have "m1 = snd (AveragedPerceptron_scores rank ?m0 x)" by simp
  then have t1: "AveragedPerceptron.time m1 = AveragedPerceptron.time m"
    by (simp add: AveragedPerceptron_scores_time)
  show ?thesis
    by (cases r)
      (simp_all add: fit_one_of_AveragedPerceptron_def AveragedPerceptron_fit_one_def
        Perceptron_fit_one_def p t1 AveragedPerceptron_update_def)
qed

lemma AP_fit_one_total:
  assumes "AP_inv m"
  shows "\<exists>yhat. fst (fit_one_of_AveragedPerceptron rank m x y) = Inr yhat"
    and "AP_inv (snd (fit_one_of_AveragedPerceptron rank m x y))"
proof -
  let ?m0 = "m\<lparr>classes := set_add y (classes m)\<rparr>"
  from assms have r0: "registered (set (classes ?m0)) (weights ?m0)" and c0: "classes ?m0 \<noteq> []"
    by (auto simp: AP_inv_def set_add_set set_add_def elim: registered_mono)
  obtain r m1 where p: "Perceptron_predict (AveragedPerceptron_scores rank) ?m0 x = (r, m1)"
    by (cases "Perceptron_predict (AveragedPerceptron_scores rank) ?m0 x")
  from AveragedPerceptron_predict_total[OF r0 c0, of rank x] p obtain yhat where
    yh: "r = Inr yhat" "yhat \<in> set (classes ?m0)" by auto
  from Perceptron_predict_state[of "AveragedPerceptron_scores rank" ?m0 x] p
  have m1: "m1 = snd (AveragedPerceptron_scores rank ?m0 x)" by simp
  from AveragedPerceptron_scores_state[of rank ?m0 x] m1
  have c1: "classes m1 = classes ?m0" and i1: "items_of (weights m1) = items_of (weights ?m0)"
    by simp_all
  from r0 i1 c1 have r1: "registered (set (classes m1)) (weights m1)"
    by (simp add: registered_def)
  have y1: "y \<in> set (classes m1)" "yhat \<in> set (classes m1)"
    using yh(2) c1 by (simp_all add: set_add_set)
  have r2: "registered (set (classes m1))
      (weights (AveragedPerceptron_update m1 x y yhat 1))"
    using AveragedPerceptron_update_loop_registered[OF r1 y1]
    by (simp add: AveragedPerceptron_update_def)
  show "\<exists>yhat. fst (fit_one_of_AveragedPerceptron rank m x y) = Inr yhat"
    by (simp add: fit_one_of_AveragedPerceptron_def AveragedPerceptron_fit_one_def
        Perceptron_fit_one_def p yh)
  have t: "AveragedPerceptron.time (snd (fit_one_of_AveragedPerceptron rank m x y)) =
      AveragedPerceptron.time m + 1"
    using AP_fit_one_time[of rank m x y]
    by (simp add: fit_one_of_AveragedPerceptron_def AveragedPerceptron_fit_one_def
        Perceptron_fit_one_def p yh)
  have cl: "classes (snd (fit_one_of_AveragedPerceptron rank m x y)) = classes m1"
    by (simp add: fit_one_of_AveragedPerceptron_def AveragedPerceptron_fit_one_def
        Perceptron_fit_one_def p yh AveragedPerceptron_update_def)
  have w: "weights (snd (fit_one_of_AveragedPerceptron rank m x y)) =
      (if y \<noteq> yhat then weights (AveragedPerceptron_update m1 x y yhat 1) else weights m1)"
    by (simp add: fit_one_of_AveragedPerceptron_def AveragedPerceptron_fit_one_def
        Perceptron_fit_one_def p yh)
  from assms have "0 \<le> AveragedPerceptron.time m" by (simp add: AP_inv_def)
  with t cl w r1 r2 c1 c0 show "AP_inv (snd (fit_one_of_AveragedPerceptron rank m x y))"
    by (cases "y = yhat") (simp_all add: AP_inv_def)
qed


lemma AP_finalize_items_averages:
  "AveragedPerceptron_finalize_items truediv f items t ready2die = (Inr r, w) \<Longrightarrow>
     r = ready2die
     \<and> w = map (\<lambda>(cls, lw). (cls, snd (LazyWeight_average truediv lw t))) items"
  by (induction items arbitrary: ready2die w)
    (auto simp: LazyWeight_eq_float_def split: prod.splits sum.splits)

lemma AP_finalize_loop_averages:
  "AveragedPerceptron_finalize_loop truediv ws t ready2die = (Inr r, w) \<Longrightarrow>
     r = ready2die
     \<and> w = map (\<lambda>(f, cw).
              (f, map (\<lambda>(cls, lw). (cls, snd (LazyWeight_average truediv lw t))) cw)) ws"
proof (induction ws arbitrary: ready2die w)
  case Nil
  then show ?case by simp
next
  case (Cons a ws)
  obtain f cw where a: "a = (f, cw)" by (cases a)
  from Cons.prems obtain r1 cw1 w1 where
    i: "AveragedPerceptron_finalize_items truediv f cw t ready2die = (Inr r1, cw1)"
    and l: "AveragedPerceptron_finalize_loop truediv ws t r1 = (Inr r, w1)"
    and w: "w = (f, cw1) # w1"
    by (auto simp: a split: prod.splits sum.splits)
  from AP_finalize_items_averages[OF i] Cons.IH[OF l] w show ?case
    by (simp add: a)
qed

lemma AP_finalize_items_outcome:
  "t \<noteq> 0 \<Longrightarrow> raised_by_division truediv
     (fst (AveragedPerceptron_finalize_items truediv f items t ready2die))"
proof (induction items arbitrary: ready2die)
  case Nil
  then show ?case by (simp add: raised_by_division_def)
next
  case (Cons a items)
  obtain c lw where a: "a = (c, lw)" by (cases a)
  note avg = LazyWeight_average_outcome[OF Cons.prems, of truediv lw]
  note ih = Cons.IH[OF Cons.prems, of ready2die]
  obtain r lw1 where l: "LazyWeight_average truediv lw t = (r, lw1)"
    by (cases "LazyWeight_average truediv lw t")
  show ?case
  proof (cases r)
    case (Inl e)
    with avg l show ?thesis
      by (simp add: a LazyWeight_eq_float_def raised_by_division_def)
  next
    case (Inr u)
    with ih l show ?thesis
      by (simp add: a LazyWeight_eq_float_def split_beta)
  qed
qed

lemma AP_finalize_loop_outcome:
  "t \<noteq> 0 \<Longrightarrow> raised_by_division truediv
     (fst (AveragedPerceptron_finalize_loop truediv ws t ready2die))"
proof (induction ws arbitrary: ready2die)
  case Nil
  then show ?case by (simp add: raised_by_division_def)
next
  case (Cons a ws)
  obtain f cw where a: "a = (f, cw)" by (cases a)
  note it = AP_finalize_items_outcome[OF Cons.prems, of truediv f cw ready2die]
  obtain r cw1 where l: "AveragedPerceptron_finalize_items truediv f cw t ready2die = (r, cw1)"
    by (cases "AveragedPerceptron_finalize_items truediv f cw t ready2die")
  show ?case
  proof (cases r)
    case (Inl e)
    with it l show ?thesis
      by (simp add: a raised_by_division_def)
  next
    case (Inr rd)
    with Cons.IH[OF Cons.prems, of rd] l show ?thesis
      by (simp add: a split_beta)
  qed
qed

lemma AP_finalize_time:
  "AveragedPerceptron.time (snd (AveragedPerceptron_finalize truediv m)) =
     AveragedPerceptron.time m"
  by (simp add: AveragedPerceptron_finalize_def split: prod.splits sum.splits)

lemma AP_finalize_ok:
  assumes "AveragedPerceptron.time m \<noteq> 0 \<or> weights m = []"
  shows "raised_by_division truediv (fst (AveragedPerceptron_finalize truediv m))
     \<and> AveragedPerceptron.time (snd (AveragedPerceptron_finalize truediv m)) =
         AveragedPerceptron.time m"
proof (cases "weights m = []")
  case True
  then show ?thesis
    by (simp add: AveragedPerceptron_finalize_def raised_by_division_def)
next
  case False
  with assms have t: "AveragedPerceptron.time m \<noteq> 0" by simp
  obtain r w where l: "AveragedPerceptron_finalize_loop truediv
      (weights m) (AveragedPerceptron.time m) [] = (r, w)"
    by (cases "AveragedPerceptron_finalize_loop truediv
      (weights m) (AveragedPerceptron.time m) []")
  from AP_finalize_loop_outcome[OF t, of truediv "weights m" "[]"] l
  have "raised_by_division truediv (fst (AveragedPerceptron_finalize truediv m))"
    by (cases r) (simp_all add: AveragedPerceptron_finalize_def raised_by_division_def)
  then show ?thesis by (simp add: AP_finalize_time)
qed

lemma fit_counts_generic:
  assumes step: "\<And>m x y. Inv m \<Longrightarrow>
      \<exists>r m'. fit_one m x y = (Inr r, m') \<and> Inv m' \<and> tm m' = tm m + 1"
    and sh: "\<And>m data. Inv m \<Longrightarrow> Inv (snd (shuffle m data)) \<and> tm (snd (shuffle m data)) = tm m
      \<and> mset (fst (shuffle m data)) = mset data"
    and fin: "\<And>m. Inv m \<Longrightarrow> P (fst (finalize m)) \<and> tm (snd (finalize m)) = tm m"
    and "Inv m"
  shows "P (fst (Classifier_fit shuffle fit_one finalize m X Y epochs))
    \<and> tm (snd (Classifier_fit shuffle fit_one finalize m X Y epochs)) =
        tm m + int (nat epochs * length (zip X Y))"
proof -
  have step': "\<And>m x y. Inv m \<Longrightarrow> (x, y) \<in> UNIV \<Longrightarrow>
      \<exists>r m'. fit_one m x y = (Inr r, m') \<and> Inv m' \<and> tm m' = tm m + 1"
    using step by blast
  from fit_epochs_counts[of Inv UNIV fit_one tm shuffle m "zip X Y" "nat epochs",
      OF step' sh assms(4)]
  obtain m' where e: "fit_epochs shuffle fit_one (nat epochs) m (zip X Y) = (Inr (), m')"
      "Inv m'" "tm m' = tm m + int (nat epochs * length (zip X Y))"
    by auto
  from fin[OF e(2)] e(1,3) show ?thesis
    by (simp add: Classifier_fit_def)
qed

lemma AP_fit_counts:
  fixes shuffle :: "'g \<Rightarrow> (feature list \<times> label) list \<Rightarrow> (feature list \<times> label) list \<times> 'g"
  assumes "permutes shuffle"
  shows "raised_by_division truediv
           (fst (fit_of_AveragedPerceptron rank truediv shuffle (AveragedPerceptron_init dflt g)
                   X Y epochs))
    \<and> AveragedPerceptron.time
        (snd (fit_of_AveragedPerceptron rank truediv shuffle (AveragedPerceptron_init dflt g)
                X Y epochs))
        = int (nat epochs * length (zip X Y))"
proof -
  let ?sh = "\<lambda>(m::('g, LazyWeight) AveragedPerceptron) data.
     case shuffle (random m) data of (data1, g1) \<Rightarrow> (data1, m\<lparr>random := g1\<rparr>)"
  have step: "\<And>(m::('g, LazyWeight) AveragedPerceptron) x y. AP_inv m \<Longrightarrow>
      \<exists>r m'. fit_one_of_AveragedPerceptron rank m x y = (Inr r, m') \<and> AP_inv m'
        \<and> AveragedPerceptron.time m' = AveragedPerceptron.time m + 1"
  proof -
    fix m :: "('g, LazyWeight) AveragedPerceptron" and x y
    assume i: "AP_inv m"
    from AP_fit_one_total[OF i, of rank x y] obtain yhat where
      f: "fst (fit_one_of_AveragedPerceptron rank m x y) = Inr yhat"
      and i': "AP_inv (snd (fit_one_of_AveragedPerceptron rank m x y))" by blast
    from f AP_fit_one_time[of rank m x y] have
      "AveragedPerceptron.time (snd (fit_one_of_AveragedPerceptron rank m x y)) =
        AveragedPerceptron.time m + 1" by simp
    with f i' show "\<exists>r m'. fit_one_of_AveragedPerceptron rank m x y = (Inr r, m') \<and> AP_inv m'
        \<and> AveragedPerceptron.time m' = AveragedPerceptron.time m + 1"
      by (metis prod.collapse)
  qed
  have sh: "\<And>m data. AP_inv m \<Longrightarrow> AP_inv (snd (?sh m data))
      \<and> AveragedPerceptron.time (snd (?sh m data)) = AveragedPerceptron.time m
      \<and> mset (fst (?sh m data)) = mset data"
    using assms by (auto simp: permutes_def AP_inv_def split_beta)
  have fin: "\<And>m::('g, LazyWeight) AveragedPerceptron. AP_inv m \<Longrightarrow>
      raised_by_division truediv (fst (AveragedPerceptron_finalize truediv m))
      \<and> AveragedPerceptron.time (snd (AveragedPerceptron_finalize truediv m)) =
          AveragedPerceptron.time m"
    by (rule AP_finalize_ok) (simp add: AP_inv_def)
  have i0: "AP_inv (AveragedPerceptron_init dflt g)"
    by (simp add: AP_inv_def AveragedPerceptron_init_def registered_def items_of_def)
  from fit_counts_generic[of AP_inv "fit_one_of_AveragedPerceptron rank"
      AveragedPerceptron.time ?sh "raised_by_division truediv"
      "AveragedPerceptron_finalize truediv", OF step sh fin i0, of X Y epochs]
  show ?thesis
    by (simp add: fit_of_AveragedPerceptron_def AveragedPerceptron_init_def)
qed


paragraph \<open>The sequence averaged perceptron\<close>

lemma AveragedPerceptron_scores_frame:
  "snd (AveragedPerceptron_scores rank m x) =
     m\<lparr>weights := weights (snd (AveragedPerceptron_scores rank m x))\<rparr>
   \<and> items_of (weights (snd (AveragedPerceptron_scores rank m x))) = items_of (weights m)"
  by (simp add: AveragedPerceptron_scores_def split_beta items_of_scores_loop)

lemma markov0_frame:
  "snd (SequencePerceptron_markov0_predict (AveragedPerceptron_scores rank) m xx) =
     m\<lparr>weights :=
         weights (snd (SequencePerceptron_markov0_predict (AveragedPerceptron_scores rank) m xx))\<rparr>
   \<and> items_of
         (weights (snd (SequencePerceptron_markov0_predict (AveragedPerceptron_scores rank) m xx)))
       = items_of (weights m)"
proof (induction xx arbitrary: m)
  case Nil
  then show ?case by simp
next
  case (Cons x xx)
  obtain r m1 where s: "AveragedPerceptron_scores rank m x = (r, m1)"
    by (cases "AveragedPerceptron_scores rank m x")
  from AveragedPerceptron_scores_frame[of rank m x] s
  have "m1 = m\<lparr>weights := weights m1\<rparr>" and i1: "items_of (weights m1) = items_of (weights m)"
    by simp_all
  then obtain ws1 where m1: "m1 = m\<lparr>weights := ws1\<rparr>" by blast
  obtain r2 m2 where
    t: "SequencePerceptron_markov0_predict (AveragedPerceptron_scores rank) m1 xx = (r2, m2)"
    by (cases "SequencePerceptron_markov0_predict (AveragedPerceptron_scores rank) m1 xx")
  from Cons.IH[of m1] t
  have "m2 = m1\<lparr>weights := weights m2\<rparr>" and i2: "items_of (weights m2) = items_of (weights m1)"
    by simp_all
  then obtain ws2 where m2: "m2 = m1\<lparr>weights := ws2\<rparr>" by blast
  have f1: "m1 = m\<lparr>weights := weights m1\<rparr>" using m1 by simp
  have f2: "m2 = m\<lparr>weights := weights m2\<rparr>" using m1 m2 by simp
  from i1 i2 have i3: "items_of (weights m2) = items_of (weights m)" by simp
  show ?case
  proof (cases r)
    case (Inl e)
    with f1 i1 show ?thesis by (simp add: s)
  next
    case (Inr sc)
    show ?thesis
    proof (cases "py_max_by_value sc")
      case (Inl e)
      with f1 i1 Inr show ?thesis by (simp add: s)
    next
      case mx: (Inr p)
      obtain yhat v where p: "p = (yhat, v)" by (cases p)
      show ?thesis
        using f2 i3 by (cases r2) (simp_all add: s Inr mx p t)
    qed
  qed
qed

lemma markov0_total:
  assumes "registered (set (classes m)) (weights m)" "classes m \<noteq> []"
  shows "\<exists>yy. fst (SequencePerceptron_markov0_predict (AveragedPerceptron_scores rank) m xx) = Inr yy
           \<and> set yy \<subseteq> set (classes m)"
  using assms
proof (induction xx arbitrary: m)
  case Nil
  then show ?case by simp
next
  case (Cons x xx)
  obtain r m1 where s: "AveragedPerceptron_scores rank m x = (r, m1)"
    by (cases "AveragedPerceptron_scores rank m x")
  from AveragedPerceptron_scores_total[OF Cons.prems(1), of rank x] s obtain sc where
    sc: "r = Inr sc" "map fst sc = set_iter rank (classes m)" by auto
  from sc(2) Cons.prems(2) have ne: "sc \<noteq> []"
    by (metis list.map_disc_iff set_empty set_iter_set)
  from py_max_by_value_total[OF ne] obtain k v where
    kv: "py_max_by_value sc = Inr (k, v)" "k \<in> fst ` set sc" by blast
  from kv(2) sc(2) have k: "k \<in> set (classes m)"
    by (metis set_map set_iter_set)
  from AveragedPerceptron_scores_frame[of rank m x] s
  have "m1 = m\<lparr>weights := weights m1\<rparr>" and i1: "items_of (weights m1) = items_of (weights m)"
    by simp_all
  then obtain ws1 where m1: "m1 = m\<lparr>weights := ws1\<rparr>" by blast
  from m1 i1 Cons.prems have "registered (set (classes m1)) (weights m1)" "classes m1 \<noteq> []"
    by (simp_all add: registered_def)
  from Cons.IH[OF this] obtain yy where
    yy: "fst (SequencePerceptron_markov0_predict (AveragedPerceptron_scores rank) m1 xx) = Inr yy"
      "set yy \<subseteq> set (classes m1)" by blast
  from yy k m1 show ?case
    by (cases "SequencePerceptron_markov0_predict (AveragedPerceptron_scores rank) m1 xx")
      (simp add: s sc kv)
qed

lemma fit_one_loop_frame:
  "SequencePerceptron_fit_one_loop (\<lambda>m x y yhat. AveragedPerceptron_update m x y yhat 1) m zs =
     m\<lparr>weights := weights (SequencePerceptron_fit_one_loop
                          (\<lambda>m x y yhat. AveragedPerceptron_update m x y yhat 1) m zs)\<rparr>"
proof (induction zs arbitrary: m)
  case Nil
  then show ?case by simp
next
  case (Cons z zs)
  obtain xt y yhat where z: "z = (xt, y, yhat)" by (cases z)
  let ?U = "\<lambda>m x y yhat. AveragedPerceptron_update m x y yhat 1"
  let ?m1 = "if y \<noteq> yhat then AveragedPerceptron_update m xt y yhat 1 else m"
  have "?m1 = m\<lparr>weights := weights ?m1\<rparr>"
    by (simp add: AveragedPerceptron_update_def)
  then obtain ws1 where m1: "?m1 = m\<lparr>weights := ws1\<rparr>" by blast
  from Cons.IH[of ?m1]
  obtain ws2 where m2: "SequencePerceptron_fit_one_loop ?U ?m1 zs = ?m1\<lparr>weights := ws2\<rparr>"
    by blast
  have "SequencePerceptron_fit_one_loop ?U m (z # zs) = SequencePerceptron_fit_one_loop ?U ?m1 zs"
    by (simp add: z)
  also have "\<dots> = m\<lparr>weights := ws2\<rparr>"
    unfolding m2 unfolding m1 by simp
  finally have e: "SequencePerceptron_fit_one_loop ?U m (z # zs) = m\<lparr>weights := ws2\<rparr>" .
  show ?case unfolding e by simp
qed

lemma fit_one_loop_registered:
  assumes "registered (set (classes m)) (weights m)"
    and "list_all (\<lambda>(xt, y, yhat). y \<in> set (classes m) \<and> yhat \<in> set (classes m)) zs"
  shows "registered (set (classes m))
     (weights (SequencePerceptron_fit_one_loop
                 (\<lambda>m x y yhat. AveragedPerceptron_update m x y yhat 1) m zs))"
  using assms
proof (induction zs arbitrary: m)
  case Nil
  then show ?case by simp
next
  case (Cons z zs)
  obtain xt y yhat where z: "z = (xt, y, yhat)" by (cases z)
  let ?m1 = "if y \<noteq> yhat then AveragedPerceptron_update m xt y yhat 1 else m"
  from Cons.prems z have y: "y \<in> set (classes m)" "yhat \<in> set (classes m)" by simp_all
  have c1: "classes ?m1 = classes m" by (simp add: AveragedPerceptron_update_def)
  have r1: "registered (set (classes ?m1)) (weights ?m1)"
    using AveragedPerceptron_update_loop_registered[OF Cons.prems(1) y] Cons.prems(1)
    by (simp add: AveragedPerceptron_update_def)
  have l1: "list_all (\<lambda>(xt, y, yhat). y \<in> set (classes ?m1) \<and> yhat \<in> set (classes ?m1)) zs"
    using Cons.prems(2) unfolding c1 by simp
  from Cons.IH[OF r1 l1] show ?case unfolding c1 by (simp add: z)
qed


lemma set_foldl_set_add: "set (foldl (\<lambda>s y. set_add y s) cs yy) = set cs \<union> set yy"
  by (induction yy arbitrary: cs) (auto simp: set_add_set)

lemma pwt_state:
  "snd (SequencePerceptron_predict_with_transitions ord scores m xx) =
     (if ord \<le> 0 then snd (SequencePerceptron_markov0_predict scores m xx) else m)"
  by (simp add: SequencePerceptron_predict_with_transitions_def split: prod.splits sum.splits)

lemma pwt_outcome:
  "ord \<le> 0 \<Longrightarrow> fst (SequencePerceptron_markov0_predict scores m xx) = Inr yy \<Longrightarrow>
     fst (SequencePerceptron_predict_with_transitions ord scores m xx) = Inr (xx, yy)"
  by (cases "SequencePerceptron_markov0_predict scores m xx")
    (simp add: SequencePerceptron_predict_with_transitions_def)

lemma zip3_mem: "(a, b, c) \<in> set (zip xs (zip ys zs)) \<Longrightarrow> b \<in> set ys \<and> c \<in> set zs"
  by (meson set_zip_leftD set_zip_rightD)

lemma seq_fit_one_frame:
  fixes m :: "('g, LazyWeight, 'z) AveragedPerceptron_scheme"
  shows "snd (SequencePerceptron_fit_one ord (AveragedPerceptron_scores rank)
             (\<lambda>m x y yhat. AveragedPerceptron_update m x y yhat 1) m xx yy) =
     m\<lparr>classes := foldl (\<lambda>s y. set_add y s) (classes m) yy,
       weights := weights (snd (SequencePerceptron_fit_one ord (AveragedPerceptron_scores rank)
             (\<lambda>m x y yhat. AveragedPerceptron_update m x y yhat 1) m xx yy))\<rparr>"
proof -
  let ?S = "AveragedPerceptron_scores rank"
  let ?U = "\<lambda>m x y yhat. AveragedPerceptron_update m x y yhat 1"
  let ?m0 = "m\<lparr>classes := foldl (\<lambda>s y. set_add y s) (classes m) yy\<rparr>"
  obtain r m1 where p: "SequencePerceptron_predict_with_transitions ord ?S ?m0 xx = (r, m1)"
    by (cases "SequencePerceptron_predict_with_transitions ord ?S ?m0 xx")
  have "m1 = ?m0\<lparr>weights := weights m1\<rparr>"
  proof (cases "ord \<le> 0")
    case True
    with pwt_state[of ord ?S ?m0 xx] p
    have "m1 = snd (SequencePerceptron_markov0_predict ?S ?m0 xx)" by simp
    with markov0_frame[of rank ?m0 xx] show ?thesis by simp
  next
    case False
    with pwt_state[of ord ?S ?m0 xx] p show ?thesis by simp
  qed
  then obtain ws1 where m1: "m1 = ?m0\<lparr>weights := ws1\<rparr>" by blast
  show ?thesis
  proof (cases r)
    case (Inl e)
    then show ?thesis by (simp add: SequencePerceptron_fit_one_def p m1)
  next
    case (Inr q)
    obtain xxt yyhat where q: "q = (xxt, yyhat)" by (cases q)
    from fit_one_loop_frame[of m1 "zip xxt (zip yy yyhat)"]
    obtain ws2 where l: "SequencePerceptron_fit_one_loop ?U m1 (zip xxt (zip yy yyhat)) =
        m1\<lparr>weights := ws2\<rparr>" by blast
    have "snd (SequencePerceptron_fit_one ord ?S ?U m xx yy) =
        SequencePerceptron_fit_one_loop ?U m1 (zip xxt (zip yy yyhat))"
      by (simp add: SequencePerceptron_fit_one_def p Inr q)
    also have "\<dots> = m1\<lparr>weights := ws2\<rparr>" by (rule l)
    also have "\<dots> = ?m0\<lparr>weights := ws2\<rparr>" by (simp add: m1)
    finally have e: "snd (SequencePerceptron_fit_one ord ?S ?U m xx yy) =
        ?m0\<lparr>weights := ws2\<rparr>" .
    show ?thesis unfolding e by simp
  qed
qed

lemma SAP_fit_one_time:
  "AveragedPerceptron.time (snd (fit_one_of_SequenceAveragedPerceptron rank m xx yy)) =
     AveragedPerceptron.time m
     + (case fst (fit_one_of_SequenceAveragedPerceptron rank m xx yy) of
          Inl e \<Rightarrow> 0 | Inr r \<Rightarrow> 1)"
proof -
  let ?F = "SequencePerceptron_fit_one (SequenceAveragedPerceptron.order m)
      (AveragedPerceptron_scores rank) (\<lambda>m x y yhat. AveragedPerceptron_update m x y yhat 1)
      m xx yy"
  obtain r m1 where f: "?F = (r, m1)" by (cases ?F)
  from seq_fit_one_frame[of "SequenceAveragedPerceptron.order m" rank m xx yy] f
  have "m1 = m\<lparr>classes := foldl (\<lambda>s y. set_add y s) (classes m) yy, weights := weights m1\<rparr>"
    by simp
  then obtain cs ws where "m1 = m\<lparr>classes := cs, weights := ws\<rparr>" by blast
  then have "AveragedPerceptron.time m1 = AveragedPerceptron.time m" by simp
  then show ?thesis
    by (cases r)
      (simp_all add: fit_one_of_SequenceAveragedPerceptron_def AveragedPerceptron_fit_one_def f)
qed

lemma SAP_fit_one_total:
  assumes "SAP_inv m"
  shows "\<exists>yyhat. fst (fit_one_of_SequenceAveragedPerceptron rank m xx yy) = Inr yyhat"
    and "SAP_inv (snd (fit_one_of_SequenceAveragedPerceptron rank m xx yy))"
proof -
  let ?S = "AveragedPerceptron_scores rank"
  let ?U = "\<lambda>m x y yhat. AveragedPerceptron_update m x y yhat 1"
  let ?ord = "SequenceAveragedPerceptron.order m"
  let ?cs = "foldl (\<lambda>s y. set_add y s) (classes m) yy"
  let ?m0 = "m\<lparr>classes := ?cs\<rparr>"
  let ?F = "SequencePerceptron_fit_one ?ord ?S ?U m xx yy"
  from assms have ord: "?ord \<le> 0" and inv: "AP_inv m" by (simp_all add: SAP_inv_def)
  from inv have c0: "classes ?m0 \<noteq> []" and r0: "registered (set (classes ?m0)) (weights ?m0)"
    by (auto simp: AP_inv_def set_foldl_set_add elim: registered_mono
        dest: arg_cong[where f = set])
  from markov0_total[OF r0 c0, of rank xx] obtain yyhat where
    yh: "fst (SequencePerceptron_markov0_predict ?S ?m0 xx) = Inr yyhat"
      "set yyhat \<subseteq> set ?cs" by auto
  obtain r m1 where p: "SequencePerceptron_predict_with_transitions ?ord ?S ?m0 xx = (r, m1)"
    by (cases "SequencePerceptron_predict_with_transitions ?ord ?S ?m0 xx")
  from pwt_outcome[OF ord yh(1)] p have r: "r = Inr (xx, yyhat)" by simp
  from pwt_state[of ?ord ?S ?m0 xx] p ord
  have m1s: "m1 = snd (SequencePerceptron_markov0_predict ?S ?m0 xx)" by simp
  from markov0_frame[of rank ?m0 xx] m1s
  have "m1 = ?m0\<lparr>weights := weights m1\<rparr>"
    and i1: "items_of (weights m1) = items_of (weights ?m0)" by simp_all
  then obtain ws1 where m1: "m1 = ?m0\<lparr>weights := ws1\<rparr>" by blast
  from m1 have c1: "classes m1 = ?cs" by simp
  from r0 i1 c1 have r1: "registered (set (classes m1)) (weights m1)"
    by (simp add: registered_def)
  let ?zs = "zip xx (zip yy yyhat)"
  have l1: "list_all (\<lambda>(xt, y, yhat). y \<in> set (classes m1) \<and> yhat \<in> set (classes m1)) ?zs"
    unfolding c1 list_all_iff using yh(2)
    by (auto simp: set_foldl_set_add dest!: zip3_mem)
  let ?m2 = "SequencePerceptron_fit_one_loop ?U m1 ?zs"
  from fit_one_loop_registered[OF r1 l1]
  have r2: "registered (set ?cs) (weights ?m2)" unfolding c1 .
  from fit_one_loop_frame[of m1 ?zs] obtain ws2 where m2: "?m2 = m1\<lparr>weights := ws2\<rparr>" by blast
  have F: "?F = (Inr yyhat, ?m2)"
    by (simp add: SequencePerceptron_fit_one_def p r)
  show "\<exists>yyhat. fst (fit_one_of_SequenceAveragedPerceptron rank m xx yy) = Inr yyhat"
    by (simp add: fit_one_of_SequenceAveragedPerceptron_def AveragedPerceptron_fit_one_def F)
  have res: "snd (fit_one_of_SequenceAveragedPerceptron rank m xx yy) =
      ?m2\<lparr>AveragedPerceptron.time := AveragedPerceptron.time ?m2 + 1\<rparr>"
    by (simp add: fit_one_of_SequenceAveragedPerceptron_def AveragedPerceptron_fit_one_def F)
  from inv have t0: "0 \<le> AveragedPerceptron.time m" by (simp add: AP_inv_def)
  from r2 have r3: "registered (set ?cs) ws2" unfolding m2 by simp
  have m2': "?m2 = m\<lparr>classes := ?cs, weights := ws2\<rparr>"
    unfolding m2 by (simp add: m1)
  show "SAP_inv (snd (fit_one_of_SequenceAveragedPerceptron rank m xx yy))"
    unfolding res unfolding m2' using r3 c0 t0 ord
    by (simp add: SAP_inv_def AP_inv_def)
qed

lemma SequencePerceptron_fit_eq: "SequencePerceptron_fit = Classifier_fit"
  by (simp add: fun_eq_iff SequencePerceptron_fit_def Classifier_fit_def)

lemma SAP_fit_counts:
  fixes shuffle :: "'g \<Rightarrow> (feature list list \<times> label list) list \<Rightarrow>
    (feature list list \<times> label list) list \<times> 'g"
  assumes "permutes shuffle" "ord \<le> 0"
  shows "raised_by_division truediv
           (fst (fit_of_SequenceAveragedPerceptron rank truediv shuffle
                   (SequenceAveragedPerceptron_init tf ord dflt g) XX YY epochs))
    \<and> AveragedPerceptron.time
        (snd (fit_of_SequenceAveragedPerceptron rank truediv shuffle
               (SequenceAveragedPerceptron_init tf ord dflt g) XX YY epochs))
        = int (nat epochs * length (zip XX YY))"
proof -
  let ?sh = "\<lambda>(m::('g, LazyWeight) SequenceAveragedPerceptron) data.
     case shuffle (random m) data of (data1, g1) \<Rightarrow> (data1, m\<lparr>random := g1\<rparr>)"
  have step: "\<And>(m::('g, LazyWeight) SequenceAveragedPerceptron) x y. SAP_inv m \<Longrightarrow>
      \<exists>r m'. fit_one_of_SequenceAveragedPerceptron rank m x y = (Inr r, m') \<and> SAP_inv m'
        \<and> AveragedPerceptron.time m' = AveragedPerceptron.time m + 1"
  proof -
    fix m :: "('g, LazyWeight) SequenceAveragedPerceptron" and x y
    assume i: "SAP_inv m"
    from SAP_fit_one_total[OF i, of rank x y] obtain yhat where
      f: "fst (fit_one_of_SequenceAveragedPerceptron rank m x y) = Inr yhat"
      and i': "SAP_inv (snd (fit_one_of_SequenceAveragedPerceptron rank m x y))" by blast
    from f SAP_fit_one_time[of rank m x y] have
      "AveragedPerceptron.time (snd (fit_one_of_SequenceAveragedPerceptron rank m x y)) =
        AveragedPerceptron.time m + 1" by simp
    with f i' show "\<exists>r m'. fit_one_of_SequenceAveragedPerceptron rank m x y = (Inr r, m')
        \<and> SAP_inv m' \<and> AveragedPerceptron.time m' = AveragedPerceptron.time m + 1"
      by (metis prod.collapse)
  qed
  have sh: "\<And>m data. SAP_inv m \<Longrightarrow> SAP_inv (snd (?sh m data))
      \<and> AveragedPerceptron.time (snd (?sh m data)) = AveragedPerceptron.time m
      \<and> mset (fst (?sh m data)) = mset data"
    using assms(1) by (auto simp: permutes_def SAP_inv_def AP_inv_def split_beta)
  have fin: "\<And>m::('g, LazyWeight) SequenceAveragedPerceptron. SAP_inv m \<Longrightarrow>
      raised_by_division truediv (fst (AveragedPerceptron_finalize truediv m))
      \<and> AveragedPerceptron.time (snd (AveragedPerceptron_finalize truediv m)) =
          AveragedPerceptron.time m"
    by (rule AP_finalize_ok) (simp add: SAP_inv_def AP_inv_def)
  have i0: "SAP_inv (SequenceAveragedPerceptron_init tf ord dflt g)"
    using assms(2)
    by (simp add: SAP_inv_def AP_inv_def SequenceAveragedPerceptron_init_def registered_def
        items_of_def)
  from fit_counts_generic[of SAP_inv "fit_one_of_SequenceAveragedPerceptron rank"
      AveragedPerceptron.time ?sh "raised_by_division truediv"
      "AveragedPerceptron_finalize truediv", OF step sh fin i0, of XX YY epochs]
  show ?thesis
    by (simp add: fit_of_SequenceAveragedPerceptron_def SequenceAveragedPerceptron_init_def
        SequencePerceptron_fit_eq)
qed

lemma SAP_fit_one_positive_order:
  "0 < SequenceAveragedPerceptron.order m \<Longrightarrow>
     fit_one_of_SequenceAveragedPerceptron rank m xx yy =
       (Inl AttributeError, m\<lparr>classes := foldl (\<lambda>s y. set_add y s) (classes m) yy\<rparr>)"
  by (simp add: fit_one_of_SequenceAveragedPerceptron_def AveragedPerceptron_fit_one_def
      SequencePerceptron_fit_one_def SequencePerceptron_predict_with_transitions_def)

text \<open>
  Claim C9. In the three averaged variants the logical time of a fresh model is 0;
  every \<^verbatim>\<open>fit_one\<close> call that returns, in any state, leaves the time exactly 1
  higher (one that raises leaves it as it was); and a whole \<^verbatim>\<open>fit\<close> run from a
  fresh model ends with the time equal to the number of epochs times the number of
  training instances (whole sequences, in the sequence variant), so the count runs on
  across the epochs. Every \<^verbatim>\<open>fit_one\<close> call of the run returns, and the run itself
  returns unless a division of the closing \<^verbatim>\<open>finalize\<close> raises (its
  \<^verbatim>\<open>OverflowError\<close>; never a division by 0), which leaves the time as it is. The run
  is over any data: boolean gold labels in the binary variant, any labels in the
  multiclass variant, and an order that is not positive in the sequence variant (with a
  positive order \<^verbatim>\<open>fit_one\<close> raises \<^verbatim>\<open>AttributeError\<close> before it processes
  anything).
\<close>

theorem logical_time_counts_instances:
  fixes shuffle :: "'g \<Rightarrow> (feature list \<times> label) list \<Rightarrow> (feature list \<times> label) list \<times> 'g"
    and shuffle_seq :: "'g \<Rightarrow> (feature list list \<times> label list) list \<Rightarrow>
      (feature list list \<times> label list) list \<times> 'g"
    and mb :: "('g, LazyWeight) BinaryAveragedPerceptron"
    and ma :: "('g, LazyWeight) AveragedPerceptron"
    and ms :: "('g, LazyWeight) SequenceAveragedPerceptron"
  assumes "permutes shuffle" and "permutes shuffle_seq" and "ord \<le> 0"
  shows "BinaryAveragedPerceptron.time (BinaryAveragedPerceptron_init g) = 0
    \<and> AveragedPerceptron.time (AveragedPerceptron_init dflt g) = 0
    \<and> AveragedPerceptron.time (SequenceAveragedPerceptron_init tf ord dflt g) = 0
    \<and> BinaryAveragedPerceptron.time (snd (fit_one_of_BinaryAveragedPerceptron mb x y)) =
        BinaryAveragedPerceptron.time mb
        + (case fst (fit_one_of_BinaryAveragedPerceptron mb x y) of Inl e \<Rightarrow> 0 | Inr r \<Rightarrow> 1)
    \<and> AveragedPerceptron.time (snd (fit_one_of_AveragedPerceptron rank ma x y)) =
        AveragedPerceptron.time ma
        + (case fst (fit_one_of_AveragedPerceptron rank ma x y) of Inl e \<Rightarrow> 0 | Inr r \<Rightarrow> 1)
    \<and> AveragedPerceptron.time (snd (fit_one_of_SequenceAveragedPerceptron rank ms xx yy)) =
        AveragedPerceptron.time ms
        + (case fst (fit_one_of_SequenceAveragedPerceptron rank ms xx yy) of
             Inl e \<Rightarrow> 0 | Inr r \<Rightarrow> 1)
    \<and> raised_by_division truediv
        (fst (fit_of_BinaryAveragedPerceptron truediv shuffle (BinaryAveragedPerceptron_init g) X
               (map PyBool B) epochs))
    \<and> BinaryAveragedPerceptron.time
        (snd (fit_of_BinaryAveragedPerceptron truediv shuffle (BinaryAveragedPerceptron_init g) X
               (map PyBool B) epochs)) = int (nat epochs * length (zip X B))
    \<and> raised_by_division truediv
        (fst (fit_of_AveragedPerceptron rank truediv shuffle (AveragedPerceptron_init dflt g)
               X Y epochs))
    \<and> AveragedPerceptron.time
        (snd (fit_of_AveragedPerceptron rank truediv shuffle (AveragedPerceptron_init dflt g)
               X Y epochs))
        = int (nat epochs * length (zip X Y))
    \<and> raised_by_division truediv
        (fst (fit_of_SequenceAveragedPerceptron rank truediv shuffle_seq
               (SequenceAveragedPerceptron_init tf ord dflt g) XX YY epochs))
    \<and> AveragedPerceptron.time
        (snd (fit_of_SequenceAveragedPerceptron rank truediv shuffle_seq
               (SequenceAveragedPerceptron_init tf ord dflt g) XX YY epochs))
        = int (nat epochs * length (zip XX YY))"
proof -
  have i: "BinaryAveragedPerceptron.time (BinaryAveragedPerceptron_init g) = 0"
    "AveragedPerceptron.time (AveragedPerceptron_init dflt g) = 0"
    "AveragedPerceptron.time (SequenceAveragedPerceptron_init tf ord dflt g) = 0"
    by (simp_all add: BinaryAveragedPerceptron_init_def AveragedPerceptron_init_def
        SequenceAveragedPerceptron_init_def)
  note b = BAP_fit_counts[OF assms(1), of truediv g X B epochs]
  note a = AP_fit_counts[OF assms(1), of truediv rank dflt g X Y epochs]
  note s = SAP_fit_counts[OF assms(2,3), of truediv rank tf dflt g XX YY epochs]
  show ?thesis
    using i b a s BAP_fit_one_time[of mb x y] AP_fit_one_time[of rank ma x y]
      SAP_fit_one_time[of rank ms xx yy]
    by blast
qed

theorem logical_time_counts_instances_witness:
  "permutes (\<lambda>(g::nat) (d::(feature list \<times> label) list). (rev d, Suc g))
   \<and> permutes (\<lambda>(g::nat) (d::(feature list list \<times> label list) list). (rev d, Suc g))
   \<and> (0::int) \<le> 0
   \<and> fst (fit_of_BinaryAveragedPerceptron exact_truediv (\<lambda>g d. (rev d, Suc g))
            (BinaryAveragedPerceptron_init 0)
            [[''a''], [''b'', ''a'']] (map PyBool [False, True]) 2) = Inr ()
   \<and> BinaryAveragedPerceptron.time
        (snd (fit_of_BinaryAveragedPerceptron exact_truediv (\<lambda>g d. (rev d, Suc g))
               (BinaryAveragedPerceptron_init 0)
               [[''a''], [''b'', ''a'']] (map PyBool [False, True]) 2)) = 4
   \<and> fst (fit_of_AveragedPerceptron (\<lambda>s c. 0) exact_truediv (\<lambda>g d. (rev d, Suc g))
            (AveragedPerceptron_init PyNone 0)
            [[''a''], [''b'', ''a'']] [PyStr ''N'', PyStr ''V''] 2) = Inr ()
   \<and> AveragedPerceptron.time
        (snd (fit_of_AveragedPerceptron (\<lambda>s c. 0) exact_truediv (\<lambda>g d. (rev d, Suc g))
               (AveragedPerceptron_init PyNone 0)
               [[''a''], [''b'', ''a'']] [PyStr ''N'', PyStr ''V''] 2)) = 4
   \<and> fst (fit_of_SequenceAveragedPerceptron (\<lambda>s c. 0) exact_truediv (\<lambda>g d. (rev d, Suc g))
            (SequenceAveragedPerceptron_init None 0 PyNone 0)
            [[[''a''], [''b'', ''a'']]] [[PyStr ''N'', PyStr ''V'']] 2) = Inr ()
   \<and> AveragedPerceptron.time
        (snd (fit_of_SequenceAveragedPerceptron (\<lambda>s c. 0) exact_truediv (\<lambda>g d. (rev d, Suc g))
               (SequenceAveragedPerceptron_init None 0 PyNone 0)
               [[[''a''], [''b'', ''a'']]] [[PyStr ''N'', PyStr ''V'']] 2)) = 2"
proof -
  have p1: "permutes (\<lambda>(g::nat) (d::(feature list \<times> label) list). (rev d, Suc g))"
    by (simp add: permutes_def)
  have p2: "permutes (\<lambda>(g::nat) (d::(feature list list \<times> label list) list). (rev d, Suc g))"
    by (simp add: permutes_def)
  have o: "(0::int) \<le> 0" by simp
  from logical_time_counts_instances [OF p1 p2 o,
      where g = 0 and dflt = PyNone and tf = None and rank = "\<lambda>s c. 0"
        and truediv = exact_truediv
        and X = "[[''a''], [''b'', ''a'']]" and B = "[False, True]" and epochs = 2
        and Y = "[PyStr ''N'', PyStr ''V'']" and XX = "[[[''a''], [''b'', ''a'']]]"
        and YY = "[[PyStr ''N'', PyStr ''V'']]"]
    p1 p2
  show ?thesis by (simp add: raised_by_exact_truediv)
qed


subsection \<open>Two runs of a training run\<close>







end
